theory Spec2Isabelle
  imports Main "HOL-Library.Word" "HOL-Library.Char_ord" "HOL-Library.List_Lexorder"
begin

unbundle bit_operations_syntax

section \<open>Data model of the SimpleDB client (sdb.go)\<close>

text \<open>
  Go strings are byte sequences; they are modelled as \<open>string\<close> (a list of 8-bit
  characters). The structs of the package become records with the field names of the
  source.
\<close>

record Attribute =
  Name :: string
  Value :: string
  Replace :: bool

record Item =
  Name :: string
  Attributes :: "Attribute list"

text \<open>The zero value of \<open>Attribute\<close> (Go's \<open>var removedAttr Attribute\<close>).\<close>

definition zeroAttribute :: Attribute where
  "zeroAttribute = \<lparr>Attribute.Name = [], Value = [], Replace = False\<rparr>"

definition NewAttribute :: "string \<Rightarrow> string \<Rightarrow> Attribute" where
  "NewAttribute name val = \<lparr>Attribute.Name = name, Value = val, Replace = False\<rparr>"

definition NewItem :: "string \<Rightarrow> Item" where
  "NewItem name = \<lparr>Item.Name = name, Item.Attributes = []\<rparr>"

text \<open>
  \<open>AddAttribute\<close> appends a fresh attribute (replace flag false) to the item and
  returns it; the model returns the updated item together with the attribute.
\<close>

definition AddAttribute :: "Item \<Rightarrow> string \<Rightarrow> string \<Rightarrow> Item \<times> Attribute" where
  "AddAttribute i name val =
     (let a = \<lparr>Attribute.Name = name, Value = val, Replace = False\<rparr>
      in (i\<lparr>Item.Attributes := Item.Attributes i @ [a]\<rparr>, a))"

text \<open>
  The loop of \<open>RemoveAttribute\<close>: it walks the old attribute slice, carrying the
  rebuilt slice \<open>i.Attributes\<close> and the variable \<open>removedAttr\<close>.
\<close>

fun RemoveAttribute_loop ::
  "Attribute \<Rightarrow> Attribute list \<Rightarrow> Attribute list \<times> Attribute \<Rightarrow> Attribute list \<times> Attribute"
where
  "RemoveAttribute_loop a [] st = st"
| "RemoveAttribute_loop a (attr # attrs) (kept, removedAttr) =
     (if Attribute.Name attr \<noteq> Attribute.Name a \<and> Value attr \<noteq> Value a
      then RemoveAttribute_loop a attrs (kept @ [attr], removedAttr)
      else RemoveAttribute_loop a attrs (kept, attr))"

definition RemoveAttribute :: "Item \<Rightarrow> Attribute \<Rightarrow> Item \<times> Attribute" where
  "RemoveAttribute i a =
     (case RemoveAttribute_loop a (Item.Attributes i) ([], zeroAttribute) of
        (kept, removedAttr) \<Rightarrow> (i\<lparr>Item.Attributes := kept\<rparr>, removedAttr))"

section \<open>Library functions used by the client\<close>

subsection \<open>strconv: decimal rendering\<close>

definition digit_char :: "nat \<Rightarrow> char" where
  "digit_char d = char_of (of_char (CHR ''0'') + d)"

fun decimal :: "nat \<Rightarrow> string" where
  "decimal n = (if n < 10 then [digit_char n] else decimal (n div 10) @ [digit_char (n mod 10)])"

declare decimal.simps [simp del]

text \<open>\<open>strconv.Itoa\<close> and \<open>strconv.FormatInt(x, 10)\<close>: an optional minus sign, then the digits.\<close>

definition Itoa :: "int \<Rightarrow> string" where
  "Itoa x = (if x < 0 then CHR ''-'' # decimal (nat (- x)) else decimal (nat x))"

definition FormatInt10 :: "int \<Rightarrow> string" where
  "FormatInt10 x = Itoa x"

subsection \<open>strings.Replace with a one-byte pattern and no limit\<close>

definition strings_Replace :: "string \<Rightarrow> char \<Rightarrow> string \<Rightarrow> string" where
  "strings_Replace s old new = concat (map (\<lambda>c. if c = old then new else [c]) s)"

subsection \<open>net/url: Values, QueryEscape, Encode\<close>

text \<open>
  \<open>url.Values\<close> is \<open>map[string][]string\<close>. It is modelled as an association list
  from keys to value lists; the order of the entries is the order in which the keys were
  first added and is not observable through \<open>Encode\<close>, which sorts the keys.
\<close>

type_synonym Values = "(string \<times> string list) list"

text \<open>Map indexing \<open>v[key]\<close>: the nil slice for a key that is absent.\<close>

definition index_Values :: "Values \<Rightarrow> string \<Rightarrow> string list" where
  "index_Values v key = (case map_of v key of None \<Rightarrow> [] | Some vs \<Rightarrow> vs)"

text \<open>\<open>v.Add(key, value)\<close> is \<open>v[key] = append(v[key], value)\<close>.\<close>

fun Add :: "Values \<Rightarrow> string \<Rightarrow> string \<Rightarrow> Values" where
  "Add [] key val = [(key, [val])]"
| "Add ((k, vs) # v) key val =
     (if k = key then (k, vs @ [val]) # v else (k, vs) # Add v key val)"

definition upperhex :: string where
  "upperhex = ''0123456789ABCDEF''"

text \<open>
  \<open>shouldEscape(c, encodeQueryComponent)\<close>: letters, digits and the marks
  \<open>- _ . ~\<close> stay; every other byte is escaped.
\<close>

definition shouldEscape :: "char \<Rightarrow> bool" where
  "shouldEscape c =
     (if (CHR ''a'' \<le> c \<and> c \<le> CHR ''z'') \<or> (CHR ''A'' \<le> c \<and> c \<le> CHR ''Z'')
          \<or> (CHR ''0'' \<le> c \<and> c \<le> CHR ''9'') then False
      else if c = CHR ''-'' \<or> c = CHR ''_'' \<or> c = CHR ''.'' \<or> c = CHR ''~'' then False
      else True)"

text \<open>The three bytes \<open>%XY\<close> written for an escaped byte: \<open>upperhex[c>>4]\<close>, \<open>upperhex[c&15]\<close>.\<close>

definition pct_byte :: "char \<Rightarrow> string" where
  "pct_byte c = [CHR ''%'', upperhex ! (of_char c div 16), upperhex ! (of_char c mod 16)]"

definition escape_byte :: "char \<Rightarrow> string" where
  "escape_byte c =
     (if c = CHR '' '' then ''+''
      else if shouldEscape c then pct_byte c
      else [c])"

definition QueryEscape :: "string \<Rightarrow> string" where
  "QueryEscape s = concat (map escape_byte s)"

text \<open>
  \<open>Values.Encode\<close>: the keys are sorted; for every key and every value of it, in
  order, \<open>&\<close> is written unless the buffer is empty, then the escaped key, \<open>=\<close> and
  the escaped value.
\<close>

fun Encode_values :: "string \<Rightarrow> string list \<Rightarrow> string \<Rightarrow> string" where
  "Encode_values keyEscaped [] buf = buf"
| "Encode_values keyEscaped (val # vs) buf =
     Encode_values keyEscaped vs
       ((if length buf > 0 then buf @ ''&'' else buf) @ keyEscaped @ ''='' @ QueryEscape val)"

fun Encode_keys :: "Values \<Rightarrow> string list \<Rightarrow> string \<Rightarrow> string" where
  "Encode_keys v [] buf = buf"
| "Encode_keys v (k # keys) buf =
     Encode_keys v keys (Encode_values (QueryEscape k) (index_Values v k) buf)"

definition Encode :: "Values \<Rightarrow> string" where
  "Encode v = (if length v = 0 then [] else Encode_keys v (sort (map fst v)) [])"

subsection \<open>net/url: ParseQuery\<close>

text \<open>
  The decoder of the form encoding, \<open>url.ParseQuery\<close>. The client never calls it; it
  is the inverse against which the canonical query string is compared.
\<close>

definition ishex :: "char \<Rightarrow> bool" where
  "ishex c = ((CHR ''0'' \<le> c \<and> c \<le> CHR ''9'') \<or> (CHR ''a'' \<le> c \<and> c \<le> CHR ''f'')
              \<or> (CHR ''A'' \<le> c \<and> c \<le> CHR ''F''))"

definition unhex :: "char \<Rightarrow> nat" where
  "unhex c =
     (if CHR ''0'' \<le> c \<and> c \<le> CHR ''9'' then of_char c - of_char (CHR ''0'')
      else if CHR ''a'' \<le> c \<and> c \<le> CHR ''f'' then of_char c - of_char (CHR ''a'') + 10
      else if CHR ''A'' \<le> c \<and> c \<le> CHR ''F'' then of_char c - of_char (CHR ''A'') + 10
      else 0)"

text \<open>\<open>QueryUnescape\<close>: \<open>None\<close> stands for the \<open>EscapeError\<close>.\<close>

fun QueryUnescape :: "string \<Rightarrow> string option" where
  "QueryUnescape [] = Some []"
| "QueryUnescape (c # s) =
     (if c = CHR ''%'' then
        (case s of
           h1 # h2 # rest \<Rightarrow>
             (if ishex h1 \<and> ishex h2
              then map_option ((#) (char_of (unhex h1 * 16 + unhex h2))) (QueryUnescape rest)
              else None)
         | _ \<Rightarrow> None)
      else if c = CHR ''+'' then map_option ((#) (CHR '' '')) (QueryUnescape s)
      else map_option ((#) c) (QueryUnescape s))"

text \<open>\<open>strings.Cut(s, sep)\<close> for a one-byte separator: the parts before and after its first occurrence.\<close>

definition Cut_before :: "string \<Rightarrow> char \<Rightarrow> string" where
  "Cut_before s sep = takeWhile (\<lambda>c. c \<noteq> sep) s"

definition Cut_after :: "string \<Rightarrow> char \<Rightarrow> string" where
  "Cut_after s sep = drop 1 (dropWhile (\<lambda>c. c \<noteq> sep) s)"

datatype parse_error = SemicolonError | EscapeError

lemma Cut_after_shorter: "s \<noteq> [] \<Longrightarrow> length (Cut_after s sep) < length s"
proof -
  assume "s \<noteq> []"
  moreover have "length (dropWhile (\<lambda>c. c \<noteq> sep) s) \<le> length s"
    by (rule length_dropWhile_le)
  ultimately show ?thesis
    by (cases s) (auto simp: Cut_after_def)
qed

function parseQuery :: "Values \<Rightarrow> parse_error option \<Rightarrow> string \<Rightarrow> Values \<times> parse_error option" where
  "parseQuery m err query =
     (if query = [] then (m, err)
      else
        (let key = Cut_before query (CHR ''&'');
             query' = Cut_after query (CHR ''&'')
         in if CHR '';'' \<in> set key then parseQuery m (Some SemicolonError) query'
            else if key = [] then parseQuery m err query'
            else
              (case QueryUnescape (Cut_before key (CHR ''='')) of
                 None \<Rightarrow> parseQuery m (if err = None then Some EscapeError else err) query'
               | Some k \<Rightarrow>
                   (case QueryUnescape (Cut_after key (CHR ''='')) of
                      None \<Rightarrow> parseQuery m (if err = None then Some EscapeError else err) query'
                    | Some val \<Rightarrow> parseQuery (Add m k val) err query'))))"
  by pat_completeness auto
termination
  by (relation "measure (\<lambda>(m, err, query). length query)") (auto simp: Cut_after_shorter)

declare parseQuery.simps [simp del]

definition ParseQuery :: "string \<Rightarrow> Values \<times> parse_error option" where
  "ParseQuery query = parseQuery [] None query"

subsection \<open>crypto/sha256 and crypto/hmac\<close>

type_synonym u32 = "32 word"

text \<open>The functions and constants of SHA-256 (FIPS 180-4) on 32-bit words.\<close>

definition rotr :: "nat \<Rightarrow> u32 \<Rightarrow> u32" where
  "rotr n x = word_rotr n x"

definition Ch :: "u32 \<Rightarrow> u32 \<Rightarrow> u32 \<Rightarrow> u32" where
  "Ch x y z = (x AND y) XOR (NOT x AND z)"

definition Maj :: "u32 \<Rightarrow> u32 \<Rightarrow> u32 \<Rightarrow> u32" where
  "Maj x y z = (x AND y) XOR (x AND z) XOR (y AND z)"

definition bsig0 :: "u32 \<Rightarrow> u32" where
  "bsig0 x = rotr 2 x XOR rotr 13 x XOR rotr 22 x"

definition bsig1 :: "u32 \<Rightarrow> u32" where
  "bsig1 x = rotr 6 x XOR rotr 11 x XOR rotr 25 x"

definition ssig0 :: "u32 \<Rightarrow> u32" where
  "ssig0 x = rotr 7 x XOR rotr 18 x XOR drop_bit 3 x"

definition ssig1 :: "u32 \<Rightarrow> u32" where
  "ssig1 x = rotr 17 x XOR rotr 19 x XOR drop_bit 10 x"

definition sha256_K :: "u32 list" where
  "sha256_K =
    [0x428A2F98, 0x71374491, 0xB5C0FBCF, 0xE9B5DBA5, 0x3956C25B, 0x59F111F1, 0x923F82A4, 0xAB1C5ED5,
     0xD807AA98, 0x12835B01, 0x243185BE, 0x550C7DC3, 0x72BE5D74, 0x80DEB1FE, 0x9BDC06A7, 0xC19BF174,
     0xE49B69C1, 0xEFBE4786, 0x0FC19DC6, 0x240CA1CC, 0x2DE92C6F, 0x4A7484AA, 0x5CB0A9DC, 0x76F988DA,
     0x983E5152, 0xA831C66D, 0xB00327C8, 0xBF597FC7, 0xC6E00BF3, 0xD5A79147, 0x06CA6351, 0x14292967,
     0x27B70A85, 0x2E1B2138, 0x4D2C6DFC, 0x53380D13, 0x650A7354, 0x766A0ABB, 0x81C2C92E, 0x92722C85,
     0xA2BFE8A1, 0xA81A664B, 0xC24B8B70, 0xC76C51A3, 0xD192E819, 0xD6990624, 0xF40E3585, 0x106AA070,
     0x19A4C116, 0x1E376C08, 0x2748774C, 0x34B0BCB5, 0x391C0CB3, 0x4ED8AA4A, 0x5B9CCA4F, 0x682E6FF3,
     0x748F82EE, 0x78A5636F, 0x84C87814, 0x8CC70208, 0x90BEFFFA, 0xA4506CEB, 0xBEF9A3F7, 0xC67178F2]"

text \<open>The eight working variables; the initial hash value.\<close>

type_synonym sha256_state = "u32 \<times> u32 \<times> u32 \<times> u32 \<times> u32 \<times> u32 \<times> u32 \<times> u32"

definition sha256_init :: sha256_state where
  "sha256_init = (0x6a09e667, 0xbb67ae85, 0x3c6ef372, 0xa54ff53a,
                  0x510e527f, 0x9b05688c, 0x1f83d9ab, 0x5be0cd19)"

text \<open>Big-endian conversion between bytes and words; the 64-bit message length.\<close>

definition be_word :: "string \<Rightarrow> u32" where
  "be_word bs = foldl (\<lambda>w b. push_bit 8 w + of_nat (of_char b)) 0 bs"

definition word_be_bytes :: "u32 \<Rightarrow> string" where
  "word_be_bytes w =
     [char_of (unat (drop_bit 24 w)), char_of (unat (drop_bit 16 w)),
      char_of (unat (drop_bit 8 w)), char_of (unat w)]"

definition length_be_bytes :: "nat \<Rightarrow> string" where
  "length_be_bytes n = map (\<lambda>i. char_of (n div 256 ^ (7 - i))) [0..<8]"

text \<open>
  Padding: the byte \<open>0x80\<close>, zero bytes up to 56 modulo 64, then the length of the
  message in bits as eight bytes.
\<close>

definition sha256_pad :: "string \<Rightarrow> string" where
  "sha256_pad m =
     m @ [CHR 0x80] @ replicate ((119 - length m mod 64) mod 64) (CHR 0x00)
       @ length_be_bytes (8 * length m)"

fun chunks :: "nat \<Rightarrow> nat \<Rightarrow> 'a list \<Rightarrow> 'a list list" where
  "chunks 0 sz xs = []"
| "chunks (Suc n) sz xs = take sz xs # chunks n sz (drop sz xs)"

text \<open>The message schedule of one 64-byte block: 16 words extended to 64.\<close>

fun schedule_extend :: "nat \<Rightarrow> u32 list \<Rightarrow> u32 list" where
  "schedule_extend 0 w = w"
| "schedule_extend (Suc n) w =
     (let t = length w
      in schedule_extend n
           (w @ [ssig1 (w ! (t - 2)) + w ! (t - 7) + ssig0 (w ! (t - 15)) + w ! (t - 16)]))"

definition sha256_schedule :: "string \<Rightarrow> u32 list" where
  "sha256_schedule block = schedule_extend 48 (map be_word (chunks 16 4 block))"

definition sha256_round :: "sha256_state \<Rightarrow> u32 \<times> u32 \<Rightarrow> sha256_state" where
  "sha256_round st kw =
     (case st of (a, b, c, d, e, f, g, h) \<Rightarrow>
        (let t1 = h + bsig1 e + Ch e f g + fst kw + snd kw;
             t2 = bsig0 a + Maj a b c
         in (t1 + t2, a, b, c, d + t1, e, f, g)))"

definition sha256_add :: "sha256_state \<Rightarrow> sha256_state \<Rightarrow> sha256_state" where
  "sha256_add s t =
     (case s of (a, b, c, d, e, f, g, h) \<Rightarrow>
      case t of (a', b', c', d', e', f', g', h') \<Rightarrow>
        (a + a', b + b', c + c', d + d', e + e', f + f', g + g', h + h'))"

definition sha256_block :: "sha256_state \<Rightarrow> string \<Rightarrow> sha256_state" where
  "sha256_block st block = sha256_add st (foldl sha256_round st (zip sha256_K (sha256_schedule block)))"

definition sha256_out :: "sha256_state \<Rightarrow> string" where
  "sha256_out st =
     (case st of (a, b, c, d, e, f, g, h) \<Rightarrow>
        concat (map word_be_bytes [a, b, c, d, e, f, g, h]))"

definition sha256_Sum :: "string \<Rightarrow> string" where
  "sha256_Sum m =
     (let padded = sha256_pad m
      in sha256_out (foldl sha256_block sha256_init (chunks (length padded div 64) 64 padded)))"

text \<open>
  HMAC (RFC 2104) with block size 64, as \<open>hmac.New(sha256.New, key)\<close> followed by
  \<open>Write\<close> and \<open>Sum(nil)\<close> computes it.
\<close>

definition xor_byte :: "nat \<Rightarrow> char \<Rightarrow> char" where
  "xor_byte x c = char_of (of_char c XOR x)"

definition hmac_sha256 :: "string \<Rightarrow> string \<Rightarrow> string" where
  "hmac_sha256 key msg =
     (let k1 = (if length key > 64 then sha256_Sum key else key);
          k2 = k1 @ replicate (64 - length k1) (CHR 0x00);
          ipad = map (xor_byte 0x36) k2;
          opad = map (xor_byte 0x5c) k2
      in sha256_Sum (opad @ sha256_Sum (ipad @ msg)))"

subsection \<open>encoding/base64: StdEncoding.EncodeToString\<close>

definition encodeStd :: string where
  "encodeStd = ''ABCDEFGHIJKLMNOPQRSTUVWXYZabcdefghijklmnopqrstuvwxyz0123456789+/''"

fun EncodeToString :: "string \<Rightarrow> string" where
  "EncodeToString (a # b # c # rest) =
     (let v = (of_char a * 256 + of_char b) * 256 + of_char c :: nat
      in [encodeStd ! (v div 262144 mod 64), encodeStd ! (v div 4096 mod 64),
          encodeStd ! (v div 64 mod 64), encodeStd ! (v mod 64)] @ EncodeToString rest)"
| "EncodeToString [a, b] =
     (let v = (of_char a * 256 + of_char b) * 256 :: nat
      in [encodeStd ! (v div 262144 mod 64), encodeStd ! (v div 4096 mod 64),
          encodeStd ! (v div 64 mod 64), CHR ''=''])"
| "EncodeToString [a] =
     (let v = of_char a * 65536 :: nat
      in [encodeStd ! (v div 262144 mod 64), encodeStd ! (v div 4096 mod 64), CHR ''='', CHR ''=''])"
| "EncodeToString [] = []"

subsection \<open>time: the clock and Format\<close>

text \<open>
  A reading of the clock, \<open>time.Now().UTC()\<close>, given by the results of its accessor
  methods: the civil date and time in UTC, the nanosecond within the second and the
  Unix time in seconds. The clock is an input of every function that reads it.
\<close>

record Time =
  Year :: int
  Month :: int
  Day :: int
  Hour :: int
  Minute :: int
  Second :: int
  Nanosecond :: int
  Unix :: int

text \<open>\<open>appendInt(b, x, width)\<close> of package time: sign, zero padding to the width, digits.\<close>

definition appendInt :: "int \<Rightarrow> nat \<Rightarrow> string" where
  "appendInt x width =
     (let ds = decimal (nat \<bar>x\<bar>)
      in (if x < 0 then ''-'' else []) @ replicate (width - length ds) (CHR ''0'') @ ds)"

text \<open>The layout element \<open>-07:00\<close> for a zone offset in seconds east of UTC.\<close>

definition formatNumColonTZ :: "int \<Rightarrow> string" where
  "formatNumColonTZ offset =
     (let zone = sgn offset * (\<bar>offset\<bar> div 60);
          az = \<bar>zone\<bar>
      in (if zone < 0 then ''-'' else ''+'') @ appendInt (az div 60) 2 @ '':'' @ appendInt (az mod 60) 2)"

text \<open>\<open>t.Format(dateFormat)\<close> with \<open>dateFormat = "2006-01-02T15:04:05-07:00"\<close>, for a time in UTC (offset 0).\<close>

definition Format_dateFormat :: "Time \<Rightarrow> string" where
  "Format_dateFormat t =
     appendInt (Year t) 4 @ ''-'' @ appendInt (Month t) 2 @ ''-'' @ appendInt (Day t) 2 @ ''T''
       @ appendInt (Hour t) 2 @ '':'' @ appendInt (Minute t) 2 @ '':'' @ appendInt (Second t) 2
       @ formatNumColonTZ 0"

section \<open>The client\<close>

subsection \<open>Errors and responses\<close>

record SimpleDBError =
  Code :: string
  Message :: string
  RequestId :: string

record Response =
  Errors :: "SimpleDBError list"
  RequestId :: string

definition zeroResponse :: Response where
  "zeroResponse = \<lparr>Errors = [], Response.RequestId = []\<rparr>"

text \<open>
  The values of Go's \<open>error\<close> that the client returns: a \<open>SimpleDBError\<close>, the result
  of \<open>errors.New\<close>, or an error handed over by the HTTP transport, by reading the body or
  by the XML decoder.
\<close>

datatype error =
    SimpleDBError_value SimpleDBError
  | errors_New string
  | transport_error string
  | read_error string
  | xml_error string

text \<open>\<open>float64\<close> and \<open>int64\<close> values are only stored, never computed with: they are kept as their 64 bits.\<close>

type_synonym float64 = "64 word"
type_synonym int64 = "64 word"

record ResponseMetadata =
  RequestId :: string
  BoxUsage :: float64

definition zeroResponseMetadata :: ResponseMetadata where
  "zeroResponseMetadata = \<lparr>ResponseMetadata.RequestId = [], BoxUsage = 0\<rparr>"

record DeleteDomainResponse =
  ResponseMetadata :: ResponseMetadata

record CreateDomainResponse =
  ResponseMetadata :: ResponseMetadata

record ListDomainsResponse =
  DomainNames :: "string list"
  ResponseMetadata :: ResponseMetadata

record DomainMetadataResponse =
  ItemCount :: int64
  ItemNamesSizeBytes :: int64
  AttributeNameCount :: int64
  AttributeNamesSizeBytes :: int64
  AttributeValueCount :: int64
  AttributeValuesSizeBytes :: int64
  Timestamp :: int64
  ResponseMetadata :: ResponseMetadata

record PutAttributesResponse =
  ResponseMetadata :: ResponseMetadata

record GetAttributesResponse =
  Attributes :: "Attribute list"

record DeleteAttributesResponse =
  ResponseMetadata :: ResponseMetadata

record SelectResponse =
  Items :: "Item list"

text \<open>The zero values of the result structures (Go's named results \<open>r\<close>).\<close>

definition zeroDeleteDomainResponse :: DeleteDomainResponse where
  "zeroDeleteDomainResponse = \<lparr>DeleteDomainResponse.ResponseMetadata = zeroResponseMetadata\<rparr>"

definition zeroCreateDomainResponse :: CreateDomainResponse where
  "zeroCreateDomainResponse = \<lparr>CreateDomainResponse.ResponseMetadata = zeroResponseMetadata\<rparr>"

definition zeroListDomainsResponse :: ListDomainsResponse where
  "zeroListDomainsResponse =
     \<lparr>DomainNames = [], ListDomainsResponse.ResponseMetadata = zeroResponseMetadata\<rparr>"

definition zeroDomainMetadataResponse :: DomainMetadataResponse where
  "zeroDomainMetadataResponse =
     \<lparr>ItemCount = 0, ItemNamesSizeBytes = 0, AttributeNameCount = 0, AttributeNamesSizeBytes = 0,
      AttributeValueCount = 0, AttributeValuesSizeBytes = 0, Timestamp = 0,
      DomainMetadataResponse.ResponseMetadata = zeroResponseMetadata\<rparr>"

definition zeroPutAttributesResponse :: PutAttributesResponse where
  "zeroPutAttributesResponse = \<lparr>PutAttributesResponse.ResponseMetadata = zeroResponseMetadata\<rparr>"

definition zeroGetAttributesResponse :: GetAttributesResponse where
  "zeroGetAttributesResponse = \<lparr>GetAttributesResponse.Attributes = []\<rparr>"

definition zeroDeleteAttributesResponse :: DeleteAttributesResponse where
  "zeroDeleteAttributesResponse = \<lparr>DeleteAttributesResponse.ResponseMetadata = zeroResponseMetadata\<rparr>"

definition zeroSelectResponse :: SelectResponse where
  "zeroSelectResponse = \<lparr>Items = []\<rparr>"

subsection \<open>The outside world\<close>

text \<open>
  An \<open>http.Response\<close> as far as the client reads it: the status text, the status code
  and what \<open>ioutil.ReadAll(r.Body)\<close> returns.
\<close>

record http_Response =
  Status :: string
  StatusCode :: int
  Body :: "error + string"

text \<open>
  The environment of a call: \<open>http.Post(url, contentType, body)\<close>, and
  \<open>xml.Unmarshal\<close> into an error envelope and into the typed result of the action.
  A decoder gets the bytes and the target and returns the target as it left it and its
  error.
\<close>

record 'v env =
  http_Post :: "string \<Rightarrow> string \<Rightarrow> string \<Rightarrow> error + http_Response"
  xml_Unmarshal_Response :: "string \<Rightarrow> Response \<Rightarrow> Response \<times> error option"
  xml_Unmarshal :: "string \<Rightarrow> 'v \<Rightarrow> 'v \<times> error option"

subsection \<open>SimpleDB: signing, reset, transport\<close>

record SimpleDB =
  RawResponse :: string
  RawRequest :: string
  p :: Values
  accessKey :: string
  secretKey :: string
  region :: string

definition sign :: "SimpleDB \<Rightarrow> string \<Rightarrow> string" where
  "sign db s = EncodeToString (hmac_sha256 (secretKey db) s)"

definition resetParameters :: "Time \<Rightarrow> SimpleDB \<Rightarrow> SimpleDB" where
  "resetParameters now db =
     (let db = db\<lparr>RawRequest := []\<rparr>;
          db = db\<lparr>RawResponse := []\<rparr>;
          db = db\<lparr>p := []\<rparr>;
          db = db\<lparr>p := Add (p db) ''AWSAccessKeyId'' (accessKey db)\<rparr>;
          db = db\<lparr>p := Add (p db) ''SignatureMethod'' ''HmacSHA256''\<rparr>;
          db = db\<lparr>p := Add (p db) ''SignatureVersion'' ''2''\<rparr>;
          db = db\<lparr>p := Add (p db) ''Version'' ''2009-04-15''\<rparr>
      in db\<lparr>p := Add (p db) ''Timestamp'' (Format_dateFormat now)\<rparr>)"

definition unmarshal ::
  "(string \<Rightarrow> 'a \<Rightarrow> 'a \<times> error option) \<Rightarrow> SimpleDB \<Rightarrow> http_Response \<Rightarrow> 'a
     \<Rightarrow> SimpleDB \<times> 'a \<times> error option"
where
  "unmarshal decode db r v =
     (case Body r of
        Inl err \<Rightarrow> (db, v, Some err)
      | Inr b \<Rightarrow> (case decode b v of (v', err) \<Rightarrow> (db\<lparr>RawResponse := b\<rparr>, v', err)))"

text \<open>The first lines of \<open>post\<close>: the string to sign, the signature, the request body.\<close>

definition unsignedSignature :: "SimpleDB \<Rightarrow> string" where
  "unsignedSignature db =
     ''POST'' @ [CHR 0x0A] @ region db @ [CHR 0x0A] @ ''/'' @ [CHR 0x0A]
       @ strings_Replace (Encode (p db)) (CHR ''+'') ''%20''"

definition post_sign :: "SimpleDB \<Rightarrow> SimpleDB" where
  "post_sign db =
     (let db = db\<lparr>p := Add (p db) ''Signature'' (sign db (unsignedSignature db))\<rparr>;
          db = db\<lparr>RawRequest := Encode (p db)\<rparr>
      in db\<lparr>RawRequest := strings_Replace (RawRequest db) (CHR ''+'') ''%20''\<rparr>)"

text \<open>
  \<open>post\<close> returns the client, the target \<open>v\<close> and the error. On a status other than
  200 the envelope is decoded into a local \<open>Response\<close> and the target is left alone.
\<close>

definition post :: "'v env \<Rightarrow> SimpleDB \<Rightarrow> 'v \<Rightarrow> SimpleDB \<times> 'v \<times> error option" where
  "post e db0 v =
     (let db = post_sign db0
      in case http_Post e (''https://'' @ region db)
                ''application/x-www-form-urlencoded; charset=utf-8'' (RawRequest db) of
           Inl err \<Rightarrow> (db, v, Some err)
         | Inr r \<Rightarrow>
             if StatusCode r \<noteq> 200 then
               (case unmarshal (xml_Unmarshal_Response e) db r zeroResponse of
                  (db', v', Some err) \<Rightarrow> (db', v, Some err)
                | (db', v', None) \<Rightarrow>
                    if length (Errors v') > 0
                    then (db', v, Some (SimpleDBError_value
                           \<lparr>Code = Code (Errors v' ! 0), Message = Message (Errors v' ! 0),
                            SimpleDBError.RequestId = SimpleDBError.RequestId (Errors v' ! 0)\<rparr>))
                    else (db', v, Some (errors_New (Status r))))
             else unmarshal (xml_Unmarshal e) db r v)"

definition NewSimpleDB :: "Time \<Rightarrow> string \<Rightarrow> string \<Rightarrow> string \<Rightarrow> SimpleDB" where
  "NewSimpleDB now a s r =
     resetParameters now
       \<lparr>RawResponse = [], RawRequest = [], p = [], accessKey = a, secretKey = s, region = r\<rparr>"

subsection \<open>The actions\<close>

text \<open>
  Every action takes the environment and the clock reading of its \<open>resetParameters\<close>.
  The parameter mapping is built first (\<open>_params\<close>), then posted.
\<close>

definition ListDomains_params :: "Time \<Rightarrow> SimpleDB \<Rightarrow> SimpleDB" where
  "ListDomains_params now db0 =
     (let db = resetParameters now db0
      in db\<lparr>p := Add (p db) ''Action'' ''ListDomains''\<rparr>)"

definition ListDomains ::
  "ListDomainsResponse env \<Rightarrow> Time \<Rightarrow> SimpleDB \<Rightarrow> SimpleDB \<times> ListDomainsResponse \<times> error option"
where
  "ListDomains e now db = post e (ListDomains_params now db) zeroListDomainsResponse"

definition DomainMetadata_params :: "Time \<Rightarrow> SimpleDB \<Rightarrow> string \<Rightarrow> SimpleDB" where
  "DomainMetadata_params now db0 name =
     (let db = resetParameters now db0;
          db = db\<lparr>p := Add (p db) ''Action'' ''DomainMetadata''\<rparr>
      in db\<lparr>p := Add (p db) ''DomainName'' name\<rparr>)"

definition DomainMetadata ::
  "DomainMetadataResponse env \<Rightarrow> Time \<Rightarrow> SimpleDB \<Rightarrow> string
     \<Rightarrow> SimpleDB \<times> DomainMetadataResponse \<times> error option"
where
  "DomainMetadata e now db name = post e (DomainMetadata_params now db name) zeroDomainMetadataResponse"

definition CreateDomain_params :: "Time \<Rightarrow> SimpleDB \<Rightarrow> string \<Rightarrow> SimpleDB" where
  "CreateDomain_params now db0 name =
     (let db = resetParameters now db0;
          db = db\<lparr>p := Add (p db) ''Action'' ''CreateDomain''\<rparr>
      in db\<lparr>p := Add (p db) ''DomainName'' name\<rparr>)"

definition CreateDomain ::
  "CreateDomainResponse env \<Rightarrow> Time \<Rightarrow> SimpleDB \<Rightarrow> string
     \<Rightarrow> SimpleDB \<times> CreateDomainResponse \<times> error option"
where
  "CreateDomain e now db name = post e (CreateDomain_params now db name) zeroCreateDomainResponse"

definition DeleteDomain_params :: "Time \<Rightarrow> SimpleDB \<Rightarrow> string \<Rightarrow> SimpleDB" where
  "DeleteDomain_params now db0 name =
     (let db = resetParameters now db0;
          db = db\<lparr>p := Add (p db) ''Action'' ''DeleteDomain''\<rparr>
      in db\<lparr>p := Add (p db) ''DomainName'' name\<rparr>)"

definition DeleteDomain ::
  "DeleteDomainResponse env \<Rightarrow> Time \<Rightarrow> SimpleDB \<Rightarrow> string
     \<Rightarrow> SimpleDB \<times> DeleteDomainResponse \<times> error option"
where
  "DeleteDomain e now db name = post e (DeleteDomain_params now db name) zeroDeleteDomainResponse"

text \<open>The loop of \<open>PutAttributes\<close> over the attributes, with the index \<open>i\<close> of the range.\<close>

fun PutAttributes_loop :: "Values \<Rightarrow> nat \<Rightarrow> Attribute list \<Rightarrow> Values" where
  "PutAttributes_loop v i [] = v"
| "PutAttributes_loop v i (a # as) =
     (let o' = Itoa (int i + 1);
          v = Add v (''Attribute.'' @ o' @ ''.Name'') (Attribute.Name a);
          v = Add v (''Attribute.'' @ o' @ ''.Value'') (Value a)
      in PutAttributes_loop v (Suc i) as)"

definition PutAttributes_params :: "Time \<Rightarrow> SimpleDB \<Rightarrow> string \<Rightarrow> Item \<Rightarrow> SimpleDB" where
  "PutAttributes_params now db0 domain i =
     (let db = resetParameters now db0;
          db = db\<lparr>p := Add (p db) ''Action'' ''PutAttributes''\<rparr>;
          db = db\<lparr>p := Add (p db) ''DomainName'' domain\<rparr>;
          db = db\<lparr>p := Add (p db) ''ItemName'' (Item.Name i)\<rparr>
      in db\<lparr>p := PutAttributes_loop (p db) 0 (Item.Attributes i)\<rparr>)"

definition PutAttributes ::
  "PutAttributesResponse env \<Rightarrow> Time \<Rightarrow> SimpleDB \<Rightarrow> string \<Rightarrow> Item
     \<Rightarrow> SimpleDB \<times> PutAttributesResponse \<times> error option"
where
  "PutAttributes e now db domain i =
     post e (PutAttributes_params now db domain i) zeroPutAttributesResponse"

text \<open>The two nested loops of \<open>BatchPutAttributes\<close>.\<close>

fun BatchPutAttributes_inner :: "Values \<Rightarrow> string \<Rightarrow> nat \<Rightarrow> Attribute list \<Rightarrow> Values" where
  "BatchPutAttributes_inner v itemNo j [] = v"
| "BatchPutAttributes_inner v itemNo j (a # as) =
     (let o' = Itoa (int j + 1);
          v = Add v (''Item.'' @ itemNo @ ''.Attribute.'' @ o' @ ''.Name'') (Attribute.Name a);
          v = Add v (''Item.'' @ itemNo @ ''.Attribute.'' @ o' @ ''.Value'') (Value a)
      in BatchPutAttributes_inner v itemNo (Suc j) as)"

fun BatchPutAttributes_loop :: "Values \<Rightarrow> nat \<Rightarrow> Item list \<Rightarrow> Values" where
  "BatchPutAttributes_loop v i [] = v"
| "BatchPutAttributes_loop v i (item # items) =
     (let itemNo = Itoa (int i + 1);
          v = Add v (''Item.'' @ itemNo @ ''.ItemName'') (Item.Name item);
          v = BatchPutAttributes_inner v itemNo 0 (Item.Attributes item)
      in BatchPutAttributes_loop v (Suc i) items)"

definition BatchPutAttributes_params :: "Time \<Rightarrow> SimpleDB \<Rightarrow> string \<Rightarrow> Item list \<Rightarrow> SimpleDB" where
  "BatchPutAttributes_params now db0 domain items =
     (let db = resetParameters now db0;
          db = db\<lparr>p := Add (p db) ''Action'' ''BatchPutAttributes''\<rparr>;
          db = db\<lparr>p := Add (p db) ''DomainName'' domain\<rparr>
      in db\<lparr>p := BatchPutAttributes_loop (p db) 0 items\<rparr>)"

definition BatchPutAttributes ::
  "PutAttributesResponse env \<Rightarrow> Time \<Rightarrow> SimpleDB \<Rightarrow> string \<Rightarrow> Item list
     \<Rightarrow> SimpleDB \<times> PutAttributesResponse \<times> error option"
where
  "BatchPutAttributes e now db domain items =
     post e (BatchPutAttributes_params now db domain items) zeroPutAttributesResponse"

definition GetAttributes_params :: "Time \<Rightarrow> SimpleDB \<Rightarrow> string \<Rightarrow> string \<Rightarrow> SimpleDB" where
  "GetAttributes_params now db0 domain itemName =
     (let db = resetParameters now db0;
          db = db\<lparr>p := Add (p db) ''Action'' ''GetAttributes''\<rparr>;
          db = db\<lparr>p := Add (p db) ''DomainName'' domain\<rparr>
      in db\<lparr>p := Add (p db) ''ItemName'' itemName\<rparr>)"

definition GetAttributes ::
  "GetAttributesResponse env \<Rightarrow> Time \<Rightarrow> SimpleDB \<Rightarrow> string \<Rightarrow> string
     \<Rightarrow> SimpleDB \<times> GetAttributesResponse \<times> error option"
where
  "GetAttributes e now db domain itemName =
     post e (GetAttributes_params now db domain itemName) zeroGetAttributesResponse"

definition DeleteItem_params :: "Time \<Rightarrow> SimpleDB \<Rightarrow> string \<Rightarrow> string \<Rightarrow> SimpleDB" where
  "DeleteItem_params now db0 domain itemName =
     (let db = resetParameters now db0;
          db = db\<lparr>p := Add (p db) ''Action'' ''DeleteAttributes''\<rparr>;
          db = db\<lparr>p := Add (p db) ''DomainName'' domain\<rparr>
      in db\<lparr>p := Add (p db) ''ItemName'' itemName\<rparr>)"

definition DeleteItem ::
  "DeleteAttributesResponse env \<Rightarrow> Time \<Rightarrow> SimpleDB \<Rightarrow> string \<Rightarrow> string
     \<Rightarrow> SimpleDB \<times> DeleteAttributesResponse \<times> error option"
where
  "DeleteItem e now db domain itemName =
     post e (DeleteItem_params now db domain itemName) zeroDeleteAttributesResponse"

definition Select_params :: "Time \<Rightarrow> SimpleDB \<Rightarrow> string \<Rightarrow> SimpleDB" where
  "Select_params now db0 q =
     (let db = resetParameters now db0;
          db = db\<lparr>p := Add (p db) ''Action'' ''Select''\<rparr>
      in db\<lparr>p := Add (p db) ''SelectExpression'' q\<rparr>)"

definition Select ::
  "SelectResponse env \<Rightarrow> Time \<Rightarrow> SimpleDB \<Rightarrow> string \<Rightarrow> SimpleDB \<times> SelectResponse \<times> error option"
where
  "Select e now db q = post e (Select_params now db q) zeroSelectResponse"

subsection \<open>The buffering log writer\<close>

text \<open>
  \<open>SDBWriter\<close> without its mutex: the model runs the writes one after the other. The
  goroutine that \<open>Write\<close> starts is not run; \<open>Write\<close> returns the call it starts,
  \<open>BatchPutAttributes(s.Domain, tmp)\<close>, as a value. \<open>strings.TrimSpace\<close> is a
  parameter.
\<close>

record SDBWriter =
  sdb :: SimpleDB
  Domain :: string
  buffer :: "Item list"

definition NewSDBWriter ::
  "CreateDomainResponse env \<Rightarrow> Time \<Rightarrow> SimpleDB \<Rightarrow> string \<Rightarrow> error + SDBWriter"
where
  "NewSDBWriter e now db domain =
     (case CreateDomain e now db domain of
        (db', r, Some err) \<Rightarrow> Inl err
      | (db', r, None) \<Rightarrow> Inr \<lparr>sdb = db', Domain = domain, buffer = []\<rparr>)"

definition Write ::
  "(string \<Rightarrow> string) \<Rightarrow> Time \<Rightarrow> SDBWriter \<Rightarrow> string
     \<Rightarrow> SDBWriter \<times> (string \<times> Item list) option \<times> int \<times> error option"
where
  "Write TrimSpace t s bs =
     (let name = FormatInt10 (Unix t) @ ''.'' @ Itoa (Nanosecond t);
          i = \<lparr>Item.Name = name, Item.Attributes = []\<rparr>;
          i = fst (AddAttribute i ''msg'' (TrimSpace bs));
          s = s\<lparr>buffer := buffer s @ [i]\<rparr>
      in if length (buffer s) = 25
         then (let tmp = buffer s
               in (s\<lparr>buffer := []\<rparr>, Some (Domain s, tmp), int (length bs), None))
         else (s, None, int (length bs), None))"

text \<open>A sequence of writes, each with its clock reading; the flush calls started, in order.\<close>

fun Write_all ::
  "(string \<Rightarrow> string) \<Rightarrow> SDBWriter \<Rightarrow> (Time \<times> string) list
     \<Rightarrow> SDBWriter \<times> (string \<times> Item list) list"
where
  "Write_all TrimSpace s [] = (s, [])"
| "Write_all TrimSpace s ((t, bs) # rest) =
     (case Write TrimSpace t s bs of
        (s', flush, n, err) \<Rightarrow>
          (case Write_all TrimSpace s' rest of
             (s'', flushes) \<Rightarrow> (s'', (case flush of None \<Rightarrow> [] | Some f \<Rightarrow> [f]) @ flushes)))"

section \<open>What the specification says\<close>

text \<open>Components joined by a separator.\<close>

fun join :: "string list \<Rightarrow> string \<Rightarrow> string" where
  "join [] sep = []"
| "join [x] sep = x"
| "join (x # y # xs) sep = x @ sep @ join (y # xs) sep"

text \<open>
  The canonical query string in the specification's words: the parameters form-encoded as
  \<open>key=value\<close>, sorted by key and joined by \<open>&\<close>, then every \<open>+\<close> replaced by
  \<open>%20\<close>.
\<close>

definition form_pairs :: "Values \<Rightarrow> string list" where
  "form_pairs v =
     concat (map (\<lambda>k. map (\<lambda>val. QueryEscape k @ ''='' @ QueryEscape val) (index_Values v k))
                 (sort (map fst v)))"

definition canonical_query :: "Values \<Rightarrow> string" where
  "canonical_query v = strings_Replace (join (form_pairs v) ''&'') (CHR ''+'') ''%20''"

text \<open>Percent-encoding proper: every byte but letters, digits and \<open>- _ . ~\<close> as \<open>%XY\<close>.\<close>

definition pct_encode :: "string \<Rightarrow> string" where
  "pct_encode s = concat (map (\<lambda>c. if shouldEscape c then pct_byte c else [c]) s)"

text \<open>
  A parameter mapping as the client builds it: no key twice (it is a map) and no key
  without a value (\<open>Add\<close> is the only way in).
\<close>

definition wf_Values :: "Values \<Rightarrow> bool" where
  "wf_Values v = (distinct (map fst v) \<and> [] \<notin> set (map snd v))"

text \<open>Fixed-width decimal fields of a timestamp, and the ranges of a clock reading.\<close>

definition two_digits :: "int \<Rightarrow> string" where
  "two_digits x = [digit_char (nat x div 10), digit_char (nat x mod 10)]"

definition four_digits :: "int \<Rightarrow> string" where
  "four_digits x =
     [digit_char (nat x div 1000), digit_char (nat x div 100 mod 10),
      digit_char (nat x div 10 mod 10), digit_char (nat x mod 10)]"

definition valid_Time :: "Time \<Rightarrow> bool" where
  "valid_Time t =
     (0 \<le> Year t \<and> Year t \<le> 9999 \<and> 1 \<le> Month t \<and> Month t \<le> 12 \<and> 1 \<le> Day t \<and> Day t \<le> 31
      \<and> 0 \<le> Hour t \<and> Hour t \<le> 23 \<and> 0 \<le> Minute t \<and> Minute t \<le> 59
      \<and> 0 \<le> Second t \<and> Second t \<le> 59)"

text \<open>
  What reaches the wire of an item: its name and the names and values of its attributes,
  in order. Two items with the same view differ at most in their \<open>Replace\<close> flags.
\<close>

definition wire_attrs :: "Attribute list \<Rightarrow> (string \<times> string) list" where
  "wire_attrs as = map (\<lambda>a. (Attribute.Name a, Value a)) as"

definition wire_item :: "Item \<Rightarrow> string \<times> (string \<times> string) list" where
  "wire_item i = (Item.Name i, wire_attrs (Item.Attributes i))"

text \<open>The parameter names that \<open>BatchPutAttributes\<close> writes for the item with number \<open>n\<close>.\<close>

definition item_keys :: "nat \<Rightarrow> Item \<Rightarrow> string set" where
  "item_keys n item =
     insert (''Item.'' @ Itoa (int n) @ ''.ItemName'')
       (\<Union>k<length (Item.Attributes item).
          {''Item.'' @ Itoa (int n) @ ''.Attribute.'' @ Itoa (int k + 1) @ ''.Name'',
           ''Item.'' @ Itoa (int n) @ ''.Attribute.'' @ Itoa (int k + 1) @ ''.Value''})"

text \<open>Decimal digits, and reading a decimal numeral back.\<close>

definition is_digit :: "char \<Rightarrow> bool" where
  "is_digit c = (CHR ''0'' \<le> c \<and> c \<le> CHR ''9'')"

definition undecimal :: "string \<Rightarrow> nat" where
  "undecimal s = foldl (\<lambda>acc c. 10 * acc + (of_char c - 48)) 0 s"

text \<open>
  The item that the log writer makes of one write: named after the clock reading, with a
  single attribute \<open>msg\<close> holding the trimmed text.
\<close>

definition item_name :: "Time \<Rightarrow> string" where
  "item_name t = FormatInt10 (Unix t) @ ''.'' @ Itoa (Nanosecond t)"

definition log_item :: "(string \<Rightarrow> string) \<Rightarrow> Time \<times> string \<Rightarrow> Item" where
  "log_item TrimSpace w =
     \<lparr>Item.Name = item_name (fst w),
      Item.Attributes = [\<lparr>Attribute.Name = ''msg'', Value = TrimSpace (snd w), Replace = False\<rparr>]\<rparr>"

text \<open>
  Auxiliary notions for the proofs about the query string: writing one more piece to the
  buffer of \<open>Encode\<close>; the key-value pairs in the order in which \<open>Encode\<close> writes
  them; one percent-encoded pair; the bytes that separate pieces of a query or lines of
  the string to sign; a sequence of \<open>Add\<close> calls.
\<close>

definition sep_append :: "string \<Rightarrow> string \<Rightarrow> string" where
  "sep_append buf s = (if buf = [] then s else buf @ ''&'' @ s)"

definition enc_pair :: "string \<times> string \<Rightarrow> string" where
  "enc_pair kx = pct_encode (fst kx) @ ''='' @ pct_encode (snd kx)"

definition sorted_pairs :: "Values \<Rightarrow> (string \<times> string) list" where
  "sorted_pairs v = concat (map (\<lambda>k. map (Pair k) (index_Values v k)) (sort (map fst v)))"

definition separator :: "char \<Rightarrow> bool" where
  "separator d = (d = CHR ''&'' \<or> d = CHR ''='' \<or> d = CHR '';'' \<or> d = CHR ''+'' \<or> d = CHR 0x0A)"

definition Add_all :: "Values \<Rightarrow> (string \<times> string) list \<Rightarrow> Values" where
  "Add_all m pairs = foldl (\<lambda>m kx. Add m (fst kx) (snd kx)) m pairs"


section \<open>Item attributes\<close>

lemma RemoveAttribute_loop_eq:
  "RemoveAttribute_loop a attrs (kept, r) =
     (kept @ filter (\<lambda>attr. Attribute.Name attr \<noteq> Attribute.Name a \<and> Value attr \<noteq> Value a) attrs,
      last (r # filter (\<lambda>attr. Attribute.Name attr = Attribute.Name a \<or> Value attr = Value a) attrs))"
  by (induction attrs arbitrary: kept r) auto

text \<open>
  Claim C10. \<open>RemoveAttribute\<close> keeps exactly the attributes whose name differs from
  the target's name and whose value differs from the target's value, in their old order;
  every attribute that shares the name or the value with the target is dropped. The
  returned attribute is the last dropped one, and the zero attribute when nothing was
  dropped. The item's name is untouched.
\<close>

theorem RemoveAttribute_spec:
  "Item.Attributes (fst (RemoveAttribute i a)) =
     filter (\<lambda>attr. Attribute.Name attr \<noteq> Attribute.Name a \<and> Value attr \<noteq> Value a) (Item.Attributes i)
   \<and> snd (RemoveAttribute i a) =
     last (zeroAttribute #
           filter (\<lambda>attr. Attribute.Name attr = Attribute.Name a \<or> Value attr = Value a) (Item.Attributes i))
   \<and> Item.Name (fst (RemoveAttribute i a)) = Item.Name i"
  by (simp add: RemoveAttribute_def RemoveAttribute_loop_eq)

section \<open>Transport and decoding of errors\<close>

lemma post_sign_fields [simp]:
  "region (post_sign db) = region db"
  "secretKey (post_sign db) = secretKey db"
  "accessKey (post_sign db) = accessKey db"
  "RawResponse (post_sign db) = RawResponse db"
  by (simp_all add: post_sign_def Let_def)

text \<open>
  Claim C2. A response with a status other than 200 whose body is read and decodes as an
  error envelope makes \<open>post\<close> fail: with the structured error built from the code,
  message and request id of the first entry when the envelope has entries (whatever the
  other entries are), and with \<open>errors.New(r.Status)\<close>, which carries the status text
  only, when it has none. The body is kept in \<open>RawResponse\<close> and the target is left
  as it was.
\<close>

theorem post_non200_envelope:
  assumes "http_Post e (''https://'' @ region db)
             ''application/x-www-form-urlencoded; charset=utf-8'' (RawRequest (post_sign db)) = Inr r"
    and "StatusCode r \<noteq> 200"
    and "Body r = Inr b"
    and "xml_Unmarshal_Response e b zeroResponse = (envelope, None)"
  shows "post e db v =
           ((post_sign db)\<lparr>RawResponse := b\<rparr>, v,
            Some (case Errors envelope of
                    [] \<Rightarrow> errors_New (Status r)
                  | first # others \<Rightarrow>
                      SimpleDBError_value
                        \<lparr>Code = Code first, Message = Message first,
                         SimpleDBError.RequestId = SimpleDBError.RequestId first\<rparr>))"
  using assms by (simp add: post_def unmarshal_def Let_def split: list.splits)

theorem post_non200_envelope_witness:
  "snd (snd (post
        \<lparr>http_Post = (\<lambda>u c b. Inr \<lparr>Status = ''400 Bad Request'', StatusCode = 400,
                                        Body = Inr ''<Response/>''\<rparr>),
          xml_Unmarshal_Response =
            (\<lambda>b v. (\<lparr>Errors = [\<lparr>Code = ''InvalidParameterValue'', Message = ''m1'',
                                   SimpleDBError.RequestId = ''r1''\<rparr>,
                                 \<lparr>Code = ''MissingParameter'', Message = ''m2'',
                                   SimpleDBError.RequestId = ''r2''\<rparr>],
                       Response.RequestId = ''top''\<rparr>, None)),
          xml_Unmarshal = (\<lambda>b v. (v, None))\<rparr>
        \<lparr>RawResponse = [], RawRequest = [], p = [], accessKey = ''AK'', secretKey = ''SK'',
          region = ''h''\<rparr> (0::nat))) =
     Some (SimpleDBError_value \<lparr>Code = ''InvalidParameterValue'', Message = ''m1'',
                                SimpleDBError.RequestId = ''r1''\<rparr>)"
  using post_non200_envelope [of
        "\<lparr>http_Post = (\<lambda>u c b. Inr \<lparr>Status = ''400 Bad Request'', StatusCode = 400,
                                        Body = Inr ''<Response/>''\<rparr>),
          xml_Unmarshal_Response =
            (\<lambda>b v. (\<lparr>Errors = [\<lparr>Code = ''InvalidParameterValue'', Message = ''m1'',
                                   SimpleDBError.RequestId = ''r1''\<rparr>,
                                 \<lparr>Code = ''MissingParameter'', Message = ''m2'',
                                   SimpleDBError.RequestId = ''r2''\<rparr>],
                       Response.RequestId = ''top''\<rparr>, None)),
          xml_Unmarshal = (\<lambda>b v. (v, None))\<rparr>"
        "\<lparr>RawResponse = [], RawRequest = [], p = [], accessKey = ''AK'', secretKey = ''SK'',
          region = ''h''\<rparr>"
        "\<lparr>Status = ''400 Bad Request'', StatusCode = 400, Body = Inr ''<Response/>''\<rparr>"
        "''<Response/>''" _ "0::nat"]
  by simp

text \<open>
  Claim C4. When the body of a response with a status other than 200 does not decode as
  an error envelope, \<open>post\<close> returns the decoder's error itself. Neither the status
  code nor the status text is part of what \<open>post\<close> returns: any other status that is
  not 200, with the same body, gives the same result.
\<close>

theorem post_non200_decode_failure:
  assumes "http_Post e (''https://'' @ region db)
             ''application/x-www-form-urlencoded; charset=utf-8'' (RawRequest (post_sign db)) = Inr r"
    and "StatusCode r \<noteq> 200"
    and "Body r = Inr b"
    and "xml_Unmarshal_Response e b zeroResponse = (envelope, Some err)"
    and "code' \<noteq> 200"
  shows "post e db v = ((post_sign db)\<lparr>RawResponse := b\<rparr>, v, Some err)
     \<and> post (e\<lparr>http_Post := \<lambda>u c body. Inr (r\<lparr>Status := status', StatusCode := code'\<rparr>)\<rparr>) db v
         = post e db v"
  using assms by (simp add: post_def unmarshal_def Let_def)

theorem post_non200_decode_failure_witness:
  "snd (snd (post
        \<lparr>http_Post = (\<lambda>u c b. Inr \<lparr>Status = ''503 Service Unavailable'', StatusCode = 503,
                                        Body = Inr ''not xml''\<rparr>),
          xml_Unmarshal_Response = (\<lambda>b v. (v, Some (xml_error ''EOF''))),
          xml_Unmarshal = (\<lambda>b v. (v, None))\<rparr>
        \<lparr>RawResponse = [], RawRequest = [], p = [], accessKey = ''AK'', secretKey = ''SK'',
          region = ''h''\<rparr> (0::nat))) =
     Some (xml_error ''EOF'')"
  using post_non200_decode_failure [of
        "\<lparr>http_Post = (\<lambda>u c b. Inr \<lparr>Status = ''503 Service Unavailable'', StatusCode = 503,
                                        Body = Inr ''not xml''\<rparr>),
          xml_Unmarshal_Response = (\<lambda>b v. (v, Some (xml_error ''EOF''))),
          xml_Unmarshal = (\<lambda>b v. (v, None))\<rparr>"
        "\<lparr>RawResponse = [], RawRequest = [], p = [], accessKey = ''AK'', secretKey = ''SK'',
          region = ''h''\<rparr>"
        "\<lparr>Status = ''503 Service Unavailable'', StatusCode = 503, Body = Inr ''not xml''\<rparr>"
        "''not xml''" zeroResponse "xml_error ''EOF''" 500 "0::nat" "''500 Internal Server Error''"]
  by simp

section \<open>Resetting the parameters\<close>

lemma of_char_digit_char: "d < 10 \<Longrightarrow> of_char (digit_char d) = 48 + d"
  by (simp add: digit_char_def)

lemma decimal_lt_10: "n < 10 \<Longrightarrow> decimal n = [digit_char n]"
  by (simp add: decimal.simps)

lemma decimal_lt_100: "10 \<le> n \<Longrightarrow> n < 100 \<Longrightarrow> decimal n = [digit_char (n div 10), digit_char (n mod 10)]"
  by (subst decimal.simps) (simp add: decimal_lt_10)

lemma decimal_lt_1000:
  "100 \<le> n \<Longrightarrow> n < 1000 \<Longrightarrow>
     decimal n = [digit_char (n div 100), digit_char (n div 10 mod 10), digit_char (n mod 10)]"
proof -
  assume n: "100 \<le> n" "n < 1000"
  have d: "n div 10 div 10 = n div 100" by (simp add: div_mult2_eq [symmetric])
  from n have "10 \<le> n div 10" "n div 10 < 100" by auto
  then have "decimal (n div 10) = [digit_char (n div 100), digit_char (n div 10 mod 10)]"
    by (simp add: decimal_lt_100 d)
  then show ?thesis using n by (subst decimal.simps) simp
qed

lemma decimal_lt_10000:
  "1000 \<le> n \<Longrightarrow> n < 10000 \<Longrightarrow>
     decimal n = [digit_char (n div 1000), digit_char (n div 100 mod 10),
                  digit_char (n div 10 mod 10), digit_char (n mod 10)]"
proof -
  assume n: "1000 \<le> n" "n < 10000"
  have d: "n div 10 div 100 = n div 1000" "n div 10 div 10 = n div 100"
    by (simp_all add: div_mult2_eq [symmetric])
  from n have "100 \<le> n div 10" "n div 10 < 1000" by auto
  then have "decimal (n div 10) =
      [digit_char (n div 1000), digit_char (n div 100 mod 10), digit_char (n div 10 mod 10)]"
    by (simp add: decimal_lt_1000 d)
  then show ?thesis using n by (subst decimal.simps) simp
qed

lemma digit_char_0: "digit_char 0 = CHR ''0''"
  by code_simp

lemma replicate_small:
  "replicate (Suc 0) c = [c]" "replicate 2 c = [c, c]" "replicate 3 c = [c, c, c]"
  by (simp_all add: numeral_2_eq_2 numeral_3_eq_3)

lemma appendInt_2: "0 \<le> x \<Longrightarrow> x < 100 \<Longrightarrow> appendInt x 2 = two_digits x"
proof -
  assume x: "0 \<le> x" "x < 100"
  show ?thesis
  proof (cases "nat x < 10")
    case True
    then show ?thesis using x
      by (simp add: appendInt_def two_digits_def decimal_lt_10 digit_char_0 replicate_small)
  next
    case False
    then have "10 \<le> nat x" "nat x < 100" using x by auto
    then show ?thesis using x
      by (simp add: appendInt_def two_digits_def decimal_lt_100)
  qed
qed

lemma appendInt_4: "0 \<le> x \<Longrightarrow> x < 10000 \<Longrightarrow> appendInt x 4 = four_digits x"
proof -
  assume x: "0 \<le> x" "x < 10000"
  consider "nat x < 10" | "10 \<le> nat x \<and> nat x < 100" | "100 \<le> nat x \<and> nat x < 1000"
    | "1000 \<le> nat x \<and> nat x < 10000"
    using x by linarith
  then show ?thesis
  proof cases
    case 1
    then show ?thesis using x
      by (simp add: appendInt_def four_digits_def decimal_lt_10 digit_char_0 replicate_small)
  next
    case 2
    then have "nat x div 10 < 10" by auto
    with 2 show ?thesis using x
      by (simp add: appendInt_def four_digits_def decimal_lt_100 digit_char_0 replicate_small)
  next
    case 3
    then have "nat x div 100 < 10" by auto
    with 3 show ?thesis using x
      by (simp add: appendInt_def four_digits_def decimal_lt_1000 digit_char_0 replicate_small)
  next
    case 4
    then show ?thesis using x
      by (simp add: appendInt_def four_digits_def decimal_lt_10000)
  qed
qed

lemma formatNumColonTZ_UTC: "formatNumColonTZ 0 = ''+00:00''"
  by (simp add: formatNumColonTZ_def appendInt_def decimal_lt_10 digit_char_0 replicate_small)

lemma Format_dateFormat_shape:
  "valid_Time t \<Longrightarrow>
   Format_dateFormat t =
     four_digits (Year t) @ ''-'' @ two_digits (Month t) @ ''-'' @ two_digits (Day t) @ ''T''
       @ two_digits (Hour t) @ '':'' @ two_digits (Minute t) @ '':'' @ two_digits (Second t)
       @ ''+00:00''"
  by (simp add: valid_Time_def Format_dateFormat_def appendInt_2 appendInt_4 formatNumColonTZ_UTC)

lemma p_resetParameters:
  "p (resetParameters now db) =
     [(''AWSAccessKeyId'', [accessKey db]), (''SignatureMethod'', [''HmacSHA256'']),
      (''SignatureVersion'', [''2'']), (''Version'', [''2009-04-15'']),
      (''Timestamp'', [Format_dateFormat now])]"
  by (simp add: resetParameters_def)

lemma resetParameters_forgets:
  "resetParameters now (db\<lparr>RawResponse := rs, RawRequest := rq, p := q\<rparr>) = resetParameters now db"
  by (simp add: resetParameters_def)

text \<open>
  Claim C6. For a clock reading in the ranges of a civil UTC time, \<open>resetParameters\<close>
  leaves exactly five parameters: the access key of the client, the three fixed protocol
  fields and the timestamp \<open>YYYY-MM-DDThh:mm:ss+00:00\<close> of that reading. Nothing of the
  old mapping, the old request or the old response survives. Every action builds its
  parameters by \<open>Add\<close> on top of this mapping.
\<close>

theorem reset_before_every_action:
  assumes "valid_Time now"
  shows
    "p (resetParameters now db) =
       [(''AWSAccessKeyId'', [accessKey db]), (''SignatureMethod'', [''HmacSHA256'']),
        (''SignatureVersion'', [''2'']), (''Version'', [''2009-04-15'']),
        (''Timestamp'',
           [four_digits (Year now) @ ''-'' @ two_digits (Month now) @ ''-'' @ two_digits (Day now)
              @ ''T'' @ two_digits (Hour now) @ '':'' @ two_digits (Minute now) @ '':''
              @ two_digits (Second now) @ ''+00:00''])]
     \<and> resetParameters now (db\<lparr>RawResponse := rs, RawRequest := rq, p := q\<rparr>) = resetParameters now db
     \<and> ListDomains_params now db =
         (resetParameters now db)\<lparr>p := Add (p (resetParameters now db)) ''Action'' ''ListDomains''\<rparr>
     \<and> DomainMetadata_params now db name =
         (resetParameters now db)\<lparr>p := Add (Add (p (resetParameters now db))
            ''Action'' ''DomainMetadata'') ''DomainName'' name\<rparr>
     \<and> CreateDomain_params now db name =
         (resetParameters now db)\<lparr>p := Add (Add (p (resetParameters now db))
            ''Action'' ''CreateDomain'') ''DomainName'' name\<rparr>
     \<and> DeleteDomain_params now db name =
         (resetParameters now db)\<lparr>p := Add (Add (p (resetParameters now db))
            ''Action'' ''DeleteDomain'') ''DomainName'' name\<rparr>
     \<and> PutAttributes_params now db domain i =
         (resetParameters now db)\<lparr>p := PutAttributes_loop
            (Add (Add (Add (p (resetParameters now db))
               ''Action'' ''PutAttributes'') ''DomainName'' domain) ''ItemName'' (Item.Name i))
            0 (Item.Attributes i)\<rparr>
     \<and> BatchPutAttributes_params now db domain items =
         (resetParameters now db)\<lparr>p := BatchPutAttributes_loop
            (Add (Add (p (resetParameters now db))
               ''Action'' ''BatchPutAttributes'') ''DomainName'' domain) 0 items\<rparr>
     \<and> GetAttributes_params now db domain itemName =
         (resetParameters now db)\<lparr>p := Add (Add (Add (p (resetParameters now db))
            ''Action'' ''GetAttributes'') ''DomainName'' domain) ''ItemName'' itemName\<rparr>
     \<and> DeleteItem_params now db domain itemName =
         (resetParameters now db)\<lparr>p := Add (Add (Add (p (resetParameters now db))
            ''Action'' ''DeleteAttributes'') ''DomainName'' domain) ''ItemName'' itemName\<rparr>
     \<and> Select_params now db q' =
         (resetParameters now db)\<lparr>p := Add (Add (p (resetParameters now db))
            ''Action'' ''Select'') ''SelectExpression'' q'\<rparr>"
proof -
  have ts: "Format_dateFormat now =
      four_digits (Year now) @ ''-'' @ two_digits (Month now) @ ''-'' @ two_digits (Day now)
        @ ''T'' @ two_digits (Hour now) @ '':'' @ two_digits (Minute now) @ '':''
        @ two_digits (Second now) @ ''+00:00''"
    using assms by (rule Format_dateFormat_shape)
  have 1: "p (resetParameters now db) =
       [(''AWSAccessKeyId'', [accessKey db]), (''SignatureMethod'', [''HmacSHA256'']),
        (''SignatureVersion'', [''2'']), (''Version'', [''2009-04-15'']),
        (''Timestamp'',
           [four_digits (Year now) @ ''-'' @ two_digits (Month now) @ ''-'' @ two_digits (Day now)
              @ ''T'' @ two_digits (Hour now) @ '':'' @ two_digits (Minute now) @ '':''
              @ two_digits (Second now) @ ''+00:00''])]"
    unfolding p_resetParameters ts by (rule refl)
  have 2: "resetParameters now (db\<lparr>RawResponse := rs, RawRequest := rq, p := q\<rparr>) = resetParameters now db"
    by (rule resetParameters_forgets)
  have 3: "ListDomains_params now db =
         (resetParameters now db)\<lparr>p := Add (p (resetParameters now db)) ''Action'' ''ListDomains''\<rparr>"
    by (simp add: ListDomains_params_def Let_def)
  have 4: "DomainMetadata_params now db name =
         (resetParameters now db)\<lparr>p := Add (Add (p (resetParameters now db))
            ''Action'' ''DomainMetadata'') ''DomainName'' name\<rparr>"
    by (simp add: DomainMetadata_params_def Let_def)
  have 5: "CreateDomain_params now db name =
         (resetParameters now db)\<lparr>p := Add (Add (p (resetParameters now db))
            ''Action'' ''CreateDomain'') ''DomainName'' name\<rparr>"
    by (simp add: CreateDomain_params_def Let_def)
  have 6: "DeleteDomain_params now db name =
         (resetParameters now db)\<lparr>p := Add (Add (p (resetParameters now db))
            ''Action'' ''DeleteDomain'') ''DomainName'' name\<rparr>"
    by (simp add: DeleteDomain_params_def Let_def)
  have 7: "PutAttributes_params now db domain i =
         (resetParameters now db)\<lparr>p := PutAttributes_loop
            (Add (Add (Add (p (resetParameters now db))
               ''Action'' ''PutAttributes'') ''DomainName'' domain) ''ItemName'' (Item.Name i))
            0 (Item.Attributes i)\<rparr>"
    by (simp add: PutAttributes_params_def Let_def)
  have 8: "BatchPutAttributes_params now db domain items =
         (resetParameters now db)\<lparr>p := BatchPutAttributes_loop
            (Add (Add (p (resetParameters now db))
               ''Action'' ''BatchPutAttributes'') ''DomainName'' domain) 0 items\<rparr>"
    by (simp add: BatchPutAttributes_params_def Let_def)
  have 9: "GetAttributes_params now db domain itemName =
         (resetParameters now db)\<lparr>p := Add (Add (Add (p (resetParameters now db))
            ''Action'' ''GetAttributes'') ''DomainName'' domain) ''ItemName'' itemName\<rparr>"
    by (simp add: GetAttributes_params_def Let_def)
  have 10: "DeleteItem_params now db domain itemName =
         (resetParameters now db)\<lparr>p := Add (Add (Add (p (resetParameters now db))
            ''Action'' ''DeleteAttributes'') ''DomainName'' domain) ''ItemName'' itemName\<rparr>"
    by (simp add: DeleteItem_params_def Let_def)
  have 11: "Select_params now db q' =
         (resetParameters now db)\<lparr>p := Add (Add (p (resetParameters now db))
            ''Action'' ''Select'') ''SelectExpression'' q'\<rparr>"
    by (simp add: Select_params_def Let_def)
  from 1 2 3 4 5 6 7 8 9 10 11 show ?thesis by (intro conjI)
qed

theorem reset_before_every_action_witness:
  "p (resetParameters
        \<lparr>Year = 2014, Month = 3, Day = 5, Hour = 7, Minute = 8, Second = 9,
         Nanosecond = 120, Unix = 1394003289\<rparr>
        \<lparr>RawResponse = ''old response'', RawRequest = ''old request'',
         p = [(''Stale'', [''x''])], accessKey = ''AKID'', secretKey = ''SK'', region = ''h''\<rparr>) =
     [(''AWSAccessKeyId'', [''AKID'']), (''SignatureMethod'', [''HmacSHA256'']),
      (''SignatureVersion'', [''2'']), (''Version'', [''2009-04-15'']),
      (''Timestamp'', [''2014-03-05T07:08:09+00:00''])]"
proof -
  have v: "valid_Time \<lparr>Year = 2014, Month = 3, Day = 5, Hour = 7, Minute = 8, Second = 9,
         Nanosecond = 120, Unix = 1394003289\<rparr>"
    by (simp add: valid_Time_def)
  have d: "four_digits 2014 = ''2014''" "two_digits 3 = ''03''" "two_digits 5 = ''05''"
    "two_digits 7 = ''07''" "two_digits 8 = ''08''" "two_digits 9 = ''09''"
    by code_simp+
  show ?thesis
    using reset_before_every_action [OF v, THEN conjunct1,
        of "\<lparr>RawResponse = ''old response'', RawRequest = ''old request'',
         p = [(''Stale'', [''x''])], accessKey = ''AKID'', secretKey = ''SK'', region = ''h''\<rparr>"]
    by (simp add: d)
qed

section \<open>Result structures\<close>

text \<open>
  Claim C7, as the code has it for \<open>GetAttributes\<close> and \<open>Select\<close>: a value of
  \<open>GetAttributesResponse\<close> is its attribute list and nothing more, and a value of
  \<open>SelectResponse\<close> is its item list and nothing more. Neither has a component for the
  request id and the box usage, which the other six result structures carry in
  \<open>ResponseMetadata\<close>.
\<close>

theorem get_and_select_results_carry_no_metadata:
  "(r :: GetAttributesResponse) = \<lparr>GetAttributesResponse.Attributes = GetAttributesResponse.Attributes r\<rparr>
   \<and> (s :: SelectResponse) = \<lparr>Items = Items s\<rparr>"
  by simp

section \<open>The replace flag and the wire\<close>

lemma PutAttributes_loop_wire:
  "wire_attrs as = wire_attrs bs \<Longrightarrow> PutAttributes_loop v i as = PutAttributes_loop v i bs"
proof (induction as arbitrary: bs v i)
  case Nil
  then show ?case by (simp add: wire_attrs_def)
next
  case (Cons a as)
  then obtain b bs' where bs: "bs = b # bs'" by (cases bs) (auto simp: wire_attrs_def)
  with Cons.prems have "Attribute.Name a = Attribute.Name b" "Value a = Value b"
    "wire_attrs as = wire_attrs bs'"
    by (simp_all add: wire_attrs_def)
  then show ?case using Cons.IH [of bs'] by (simp add: bs Let_def)
qed

lemma BatchPutAttributes_inner_wire:
  "wire_attrs as = wire_attrs bs \<Longrightarrow>
     BatchPutAttributes_inner v itemNo j as = BatchPutAttributes_inner v itemNo j bs"
proof (induction as arbitrary: bs v j)
  case Nil
  then show ?case by (simp add: wire_attrs_def)
next
  case (Cons a as)
  then obtain b bs' where bs: "bs = b # bs'" by (cases bs) (auto simp: wire_attrs_def)
  with Cons.prems have "Attribute.Name a = Attribute.Name b" "Value a = Value b"
    "wire_attrs as = wire_attrs bs'"
    by (simp_all add: wire_attrs_def)
  then show ?case using Cons.IH [of bs'] by (simp add: bs Let_def)
qed

lemma BatchPutAttributes_loop_wire:
  "map wire_item xs = map wire_item ys \<Longrightarrow>
     BatchPutAttributes_loop v i xs = BatchPutAttributes_loop v i ys"
proof (induction xs arbitrary: ys v i)
  case Nil
  then show ?case by simp
next
  case (Cons x xs)
  then obtain y ys' where ys: "ys = y # ys'" by (cases ys) auto
  with Cons.prems have m: "map wire_item xs = map wire_item ys'" and h: "wire_item x = wire_item y"
    by simp_all
  from h have "Item.Name x = Item.Name y"
    "wire_attrs (Item.Attributes x) = wire_attrs (Item.Attributes y)"
    by (simp_all add: wire_item_def)
  with m show ?case
    using Cons.IH [of ys'] BatchPutAttributes_inner_wire [of "Item.Attributes x" "Item.Attributes y"]
    by (simp add: ys Let_def)
qed

lemma keys_Add: "fst ` set (Add v k x) = insert k (fst ` set v)"
  by (induction v k x rule: Add.induct) auto

lemma keys_PutAttributes_loop:
  "fst ` set (PutAttributes_loop v i as) =
     fst ` set v \<union> (\<Union>j<length as. {''Attribute.'' @ Itoa (int (i + j) + 1) @ ''.Name'',
                                       ''Attribute.'' @ Itoa (int (i + j) + 1) @ ''.Value''})"
proof (induction as arbitrary: v i)
  case Nil
  then show ?case by simp
next
  case (Cons a as)
  show ?case
    by (simp add: Cons.IH Let_def keys_Add lessThan_Suc_eq_insert_0 image_image) auto
qed

lemma keys_BatchPutAttributes_inner:
  "fst ` set (BatchPutAttributes_inner v itemNo j as) =
     fst ` set v \<union> (\<Union>k<length as.
        {''Item.'' @ itemNo @ ''.Attribute.'' @ Itoa (int (j + k) + 1) @ ''.Name'',
         ''Item.'' @ itemNo @ ''.Attribute.'' @ Itoa (int (j + k) + 1) @ ''.Value''})"
proof (induction as arbitrary: v j)
  case Nil
  then show ?case by simp
next
  case (Cons a as)
  show ?case
    by (simp add: Cons.IH Let_def keys_Add lessThan_Suc_eq_insert_0 image_image) auto
qed

lemma keys_BatchPutAttributes_loop:
  "fst ` set (BatchPutAttributes_loop v i items) =
     fst ` set v \<union> (\<Union>n<length items. item_keys (i + n + 1) (items ! n))"
proof (induction items arbitrary: v i)
  case Nil
  then show ?case by simp
next
  case (Cons a as)
  have "int i + 1 = int (Suc i)" by simp
  then show ?case
    by (simp add: Cons.IH Let_def keys_Add keys_BatchPutAttributes_inner item_keys_def
          lessThan_Suc_eq_insert_0 image_image Un_assoc add.commute)
qed

lemma p_PutAttributes_params:
  "p (PutAttributes_params now db domain i) =
     PutAttributes_loop
       (Add (Add (Add (p (resetParameters now db)) ''Action'' ''PutAttributes'') ''DomainName'' domain)
          ''ItemName'' (Item.Name i))
       0 (Item.Attributes i)"
  by (simp add: PutAttributes_params_def Let_def)

lemma p_BatchPutAttributes_params:
  "p (BatchPutAttributes_params now db domain items) =
     BatchPutAttributes_loop
       (Add (Add (p (resetParameters now db)) ''Action'' ''BatchPutAttributes'') ''DomainName'' domain)
       0 items"
  by (simp add: BatchPutAttributes_params_def Let_def)

lemma fixed_keys:
  "fst ` set (p (resetParameters now db)) =
     {''AWSAccessKeyId'', ''SignatureMethod'', ''SignatureVersion'', ''Version'', ''Timestamp''}"
  by (simp add: p_resetParameters)

text \<open>
  Claim C8. Two items with the same name and the same attribute names and values, in
  order, give the same \<open>PutAttributes\<close> call: the same parameters, the same request and
  the same result, whatever their \<open>Replace\<close> flags. The same holds for two item lists
  and \<open>BatchPutAttributes\<close>. The parameter names of the two requests are the fixed
  fields, \<open>Action\<close>, \<open>DomainName\<close> and the \<open>ItemName\<close>, \<open>Name\<close> and \<open>Value\<close>
  fields of the items and attributes, numbered from 1.
\<close>

theorem Replace_flag_never_serialized:
  "(wire_item i1 = wire_item i2 \<longrightarrow>
      PutAttributes_params now db domain i1 = PutAttributes_params now db domain i2
      \<and> PutAttributes e now db domain i1 = PutAttributes e now db domain i2)
   \<and> (map wire_item items1 = map wire_item items2 \<longrightarrow>
      BatchPutAttributes_params now db domain items1 = BatchPutAttributes_params now db domain items2
      \<and> BatchPutAttributes e now db domain items1 = BatchPutAttributes e now db domain items2)
   \<and> fst ` set (p (PutAttributes_params now db domain i)) =
       {''AWSAccessKeyId'', ''SignatureMethod'', ''SignatureVersion'', ''Version'', ''Timestamp'',
        ''Action'', ''DomainName'', ''ItemName''}
       \<union> (\<Union>j<length (Item.Attributes i).
            {''Attribute.'' @ Itoa (int j + 1) @ ''.Name'', ''Attribute.'' @ Itoa (int j + 1) @ ''.Value''})
   \<and> fst ` set (p (BatchPutAttributes_params now db domain items)) =
       {''AWSAccessKeyId'', ''SignatureMethod'', ''SignatureVersion'', ''Version'', ''Timestamp'',
        ''Action'', ''DomainName''}
       \<union> (\<Union>n<length items. item_keys (n + 1) (items ! n))"
proof -
  have 1: "wire_item i1 = wire_item i2 \<longrightarrow>
      PutAttributes_params now db domain i1 = PutAttributes_params now db domain i2
      \<and> PutAttributes e now db domain i1 = PutAttributes e now db domain i2"
  proof
    assume "wire_item i1 = wire_item i2"
    then have n: "Item.Name i1 = Item.Name i2"
      and a: "wire_attrs (Item.Attributes i1) = wire_attrs (Item.Attributes i2)"
      by (simp_all add: wire_item_def)
    have "PutAttributes_loop v 0 (Item.Attributes i1) = PutAttributes_loop v 0 (Item.Attributes i2)" for v
      using a by (rule PutAttributes_loop_wire)
    with n have "PutAttributes_params now db domain i1 = PutAttributes_params now db domain i2"
      by (simp add: PutAttributes_params_def Let_def)
    then show "PutAttributes_params now db domain i1 = PutAttributes_params now db domain i2
      \<and> PutAttributes e now db domain i1 = PutAttributes e now db domain i2"
      by (simp add: PutAttributes_def)
  qed
  have 2: "map wire_item items1 = map wire_item items2 \<longrightarrow>
      BatchPutAttributes_params now db domain items1 = BatchPutAttributes_params now db domain items2
      \<and> BatchPutAttributes e now db domain items1 = BatchPutAttributes e now db domain items2"
  proof
    assume "map wire_item items1 = map wire_item items2"
    then have "BatchPutAttributes_loop v 0 items1 = BatchPutAttributes_loop v 0 items2" for v
      by (rule BatchPutAttributes_loop_wire)
    then have "BatchPutAttributes_params now db domain items1 = BatchPutAttributes_params now db domain items2"
      by (simp add: BatchPutAttributes_params_def Let_def)
    then show "BatchPutAttributes_params now db domain items1 = BatchPutAttributes_params now db domain items2
      \<and> BatchPutAttributes e now db domain items1 = BatchPutAttributes e now db domain items2"
      by (simp add: BatchPutAttributes_def)
  qed
  have "fst ` set (p (PutAttributes_params now db domain i)) =
       insert ''ItemName'' (insert ''DomainName'' (insert ''Action''
         (fst ` set (p (resetParameters now db)))))
       \<union> (\<Union>j<length (Item.Attributes i).
            {''Attribute.'' @ Itoa (int j + 1) @ ''.Name'', ''Attribute.'' @ Itoa (int j + 1) @ ''.Value''})"
    by (simp only: p_PutAttributes_params keys_PutAttributes_loop keys_Add add_0)
  also have "insert ''ItemName'' (insert ''DomainName'' (insert ''Action''
         (fst ` set (p (resetParameters now db))))) =
       {''AWSAccessKeyId'', ''SignatureMethod'', ''SignatureVersion'', ''Version'', ''Timestamp'',
        ''Action'', ''DomainName'', ''ItemName''}"
    unfolding fixed_keys by (simp only: insert_commute)
  finally have 3: "fst ` set (p (PutAttributes_params now db domain i)) =
       {''AWSAccessKeyId'', ''SignatureMethod'', ''SignatureVersion'', ''Version'', ''Timestamp'',
        ''Action'', ''DomainName'', ''ItemName''}
       \<union> (\<Union>j<length (Item.Attributes i).
            {''Attribute.'' @ Itoa (int j + 1) @ ''.Name'', ''Attribute.'' @ Itoa (int j + 1) @ ''.Value''})" .
  have "fst ` set (p (BatchPutAttributes_params now db domain items)) =
       insert ''DomainName'' (insert ''Action'' (fst ` set (p (resetParameters now db))))
       \<union> (\<Union>n<length items. item_keys (n + 1) (items ! n))"
    by (simp only: p_BatchPutAttributes_params keys_BatchPutAttributes_loop keys_Add add_0)
  also have "insert ''DomainName'' (insert ''Action'' (fst ` set (p (resetParameters now db)))) =
       {''AWSAccessKeyId'', ''SignatureMethod'', ''SignatureVersion'', ''Version'', ''Timestamp'',
        ''Action'', ''DomainName''}"
    unfolding fixed_keys by (simp only: insert_commute)
  finally have 4: "fst ` set (p (BatchPutAttributes_params now db domain items)) =
       {''AWSAccessKeyId'', ''SignatureMethod'', ''SignatureVersion'', ''Version'', ''Timestamp'',
        ''Action'', ''DomainName''}
       \<union> (\<Union>n<length items. item_keys (n + 1) (items ! n))" .
  from 1 2 3 4 show ?thesis by (intro conjI)
qed

theorem Replace_flag_never_serialized_witness:
  "PutAttributes_params \<lparr>Year = 2014, Month = 3, Day = 5, Hour = 7, Minute = 8, Second = 9,
         Nanosecond = 120, Unix = 1394003289\<rparr>
        \<lparr>RawResponse = [], RawRequest = [], p = [], accessKey = ''AK'', secretKey = ''SK'',
          region = ''h''\<rparr> ''dom''
        \<lparr>Item.Name = ''i1'',
         Item.Attributes = [\<lparr>Attribute.Name = ''color'', Value = ''red'', Replace = True\<rparr>]\<rparr>
   = PutAttributes_params \<lparr>Year = 2014, Month = 3, Day = 5, Hour = 7, Minute = 8, Second = 9,
         Nanosecond = 120, Unix = 1394003289\<rparr>
        \<lparr>RawResponse = [], RawRequest = [], p = [], accessKey = ''AK'', secretKey = ''SK'',
          region = ''h''\<rparr> ''dom''
        \<lparr>Item.Name = ''i1'',
         Item.Attributes = [\<lparr>Attribute.Name = ''color'', Value = ''red'', Replace = False\<rparr>]\<rparr>"
  using Replace_flag_never_serialized [of
        "\<lparr>Item.Name = ''i1'',
         Item.Attributes = [\<lparr>Attribute.Name = ''color'', Value = ''red'', Replace = True\<rparr>]\<rparr>"
        "\<lparr>Item.Name = ''i1'',
         Item.Attributes = [\<lparr>Attribute.Name = ''color'', Value = ''red'', Replace = False\<rparr>]\<rparr>"
        "\<lparr>Year = 2014, Month = 3, Day = 5, Hour = 7, Minute = 8, Second = 9,
         Nanosecond = 120, Unix = 1394003289\<rparr>"
        "\<lparr>RawResponse = [], RawRequest = [], p = [], accessKey = ''AK'', secretKey = ''SK'',
          region = ''h''\<rparr>" "''dom''"]
  by (simp add: wire_item_def wire_attrs_def)

section \<open>The buffering log writer\<close>

lemma is_digit_iff: "is_digit c \<longleftrightarrow> 48 \<le> (of_char c :: nat) \<and> (of_char c :: nat) \<le> 57"
  by (simp add: is_digit_def less_eq_char_def)

lemma is_digit_digit_char: "d < 10 \<Longrightarrow> is_digit (digit_char d)"
  by (simp add: is_digit_iff of_char_digit_char)

lemma decimal_digits: "\<forall>c \<in> set (decimal n). is_digit c"
proof (induction n rule: decimal.induct)
  case (1 n)
  show ?case
  proof (cases "n < 10")
    case True
    then show ?thesis by (subst decimal.simps) (simp add: is_digit_digit_char)
  next
    case False
    with 1 show ?thesis by (subst decimal.simps) (simp add: is_digit_digit_char)
  qed
qed

lemma decimal_nonempty: "decimal n \<noteq> []"
  by (subst decimal.simps) simp

lemma undecimal_decimal: "undecimal (decimal n) = n"
proof (induction n rule: decimal.induct)
  case (1 n)
  show ?case
  proof (cases "n < 10")
    case True
    then show ?thesis
      by (subst decimal.simps) (simp add: undecimal_def of_char_digit_char)
  next
    case False
    with 1 have "undecimal (decimal (n div 10)) = n div 10" by simp
    with False show ?thesis
      by (subst decimal.simps) (simp add: undecimal_def of_char_digit_char)
  qed
qed

lemma decimal_inj: "decimal m = decimal n \<Longrightarrow> m = n"
  by (metis undecimal_decimal)

lemma not_digit: "\<not> is_digit (CHR ''-'')" "\<not> is_digit (CHR ''.'')"
  by (simp_all add: is_digit_iff)

lemma hd_decimal: "hd (decimal n) \<noteq> CHR ''-''"
  using decimal_digits [of n] decimal_nonempty [of n] not_digit(1)
  by (cases "decimal n") auto

lemma Itoa_inj: "Itoa x = Itoa y \<Longrightarrow> x = y"
proof -
  assume eq: "Itoa x = Itoa y"
  have neg: "\<And>a b. a < 0 \<Longrightarrow> \<not> b < 0 \<Longrightarrow> Itoa a \<noteq> Itoa b"
  proof
    fix a b :: int
    assume "a < 0" "\<not> b < 0" "Itoa a = Itoa b"
    then have "CHR ''-'' # decimal (nat (- a)) = decimal (nat b)" by (simp add: Itoa_def)
    then have "hd (decimal (nat b)) = CHR ''-''" by (metis list.sel(1))
    then show False using hd_decimal by blast
  qed
  show ?thesis
  proof (cases "x < 0")
    case xn: True
    show ?thesis
    proof (cases "y < 0")
      case True
      with xn eq have "decimal (nat (- x)) = decimal (nat (- y))" by (simp add: Itoa_def)
      then have "nat (- x) = nat (- y)" by (rule decimal_inj)
      with xn True show ?thesis by simp
    next
      case False
      with xn eq neg show ?thesis by blast
    qed
  next
    case xp: False
    show ?thesis
    proof (cases "y < 0")
      case True
      with xp eq neg [of y x] show ?thesis by auto
    next
      case False
      with xp eq have "decimal (nat x) = decimal (nat y)" by (simp add: Itoa_def)
      then have "nat x = nat y" by (rule decimal_inj)
      with xp False show ?thesis by simp
    qed
  qed
qed

lemma Itoa_no_dot: "CHR ''.'' \<notin> set (Itoa x)"
  using decimal_digits not_digit(2) by (auto simp: Itoa_def)

lemma append_dot_inj:
  "CHR ''.'' \<notin> set a \<Longrightarrow> CHR ''.'' \<notin> set a' \<Longrightarrow> a @ CHR ''.'' # b = a' @ CHR ''.'' # b' \<Longrightarrow> a = a' \<and> b = b'"
proof (induction a arbitrary: a')
  case Nil
  then show ?case by (cases a') auto
next
  case (Cons x a)
  then show ?case by (cases a') auto
qed

lemma item_name_inj:
  "item_name s = item_name t \<Longrightarrow> Unix s = Unix t \<and> Nanosecond s = Nanosecond t"
proof -
  assume "item_name s = item_name t"
  then have "Itoa (Unix s) @ CHR ''.'' # Itoa (Nanosecond s) = Itoa (Unix t) @ CHR ''.'' # Itoa (Nanosecond t)"
    by (simp add: item_name_def FormatInt10_def)
  then have "Itoa (Unix s) = Itoa (Unix t) \<and> Itoa (Nanosecond s) = Itoa (Nanosecond t)"
    by (rule append_dot_inj [OF Itoa_no_dot Itoa_no_dot])
  then show ?thesis by (simp add: Itoa_inj)
qed

lemma Write_eq:
  "Write trim t s bs =
     (if length (buffer s) + 1 = 25
      then (s\<lparr>buffer := []\<rparr>, Some (Domain s, buffer s @ [log_item trim (t, bs)]), int (length bs), None)
      else (s\<lparr>buffer := buffer s @ [log_item trim (t, bs)]\<rparr>, None, int (length bs), None))"
  by (simp add: Write_def Let_def AddAttribute_def log_item_def item_name_def)

lemma Write_all_below:
  "length (buffer s) + length ws < 25 \<Longrightarrow>
     Write_all trim s ws = (s\<lparr>buffer := buffer s @ map (log_item trim) ws\<rparr>, [])"
proof (induction ws arbitrary: s)
  case Nil
  then show ?case by simp
next
  case (Cons w ws)
  obtain t bs where w: "w = (t, bs)" by (cases w)
  from Cons.prems have "length (buffer s) + 1 \<noteq> 25" by simp
  moreover from Cons.prems
  have "length (buffer (s\<lparr>buffer := buffer s @ [log_item trim (t, bs)]\<rparr>)) + length ws < 25"
    by simp
  ultimately show ?case
    using Cons.IH [of "s\<lparr>buffer := buffer s @ [log_item trim (t, bs)]\<rparr>"]
    by (simp add: w Write_eq)
qed

lemma Write_all_fill:
  "length (buffer s) + length ws = 25 \<Longrightarrow> ws \<noteq> [] \<Longrightarrow>
     Write_all trim s ws = (s\<lparr>buffer := []\<rparr>, [(Domain s, buffer s @ map (log_item trim) ws)])"
proof (induction ws arbitrary: s)
  case Nil
  then show ?case by simp
next
  case (Cons w ws)
  obtain t bs where w: "w = (t, bs)" by (cases w)
  show ?case
  proof (cases "ws = []")
    case True
    with Cons.prems have "length (buffer s) + 1 = 25" by simp
    with True show ?thesis by (simp add: w Write_eq)
  next
    case False
    with Cons.prems have n: "length (buffer s) + 1 \<noteq> 25" by (cases ws) auto
    from Cons.prems
    have "length (buffer (s\<lparr>buffer := buffer s @ [log_item trim (t, bs)]\<rparr>)) + length ws = 25"
      by simp
    from Cons.IH [OF this False] n show ?thesis
      by (simp add: w Write_eq)
  qed
qed

lemma not_distinct_replicate: "1 < n \<Longrightarrow> \<not> distinct (replicate n x)"
proof -
  assume "1 < n"
  then have "n = Suc (Suc (n - 2))" by simp
  then have "replicate n x = x # x # replicate (n - 2) x"
    by (metis replicate_Suc)
  then show ?thesis by simp
qed

lemma distinct_item_names:
  "distinct (map (\<lambda>w. (Unix (fst w), Nanosecond (fst w))) ws) \<Longrightarrow>
     distinct (map Item.Name (map (log_item trim) ws))"
proof -
  assume d: "distinct (map (\<lambda>w. (Unix (fst w), Nanosecond (fst w))) ws)"
  have "map Item.Name (map (log_item trim) ws) =
          map (\<lambda>k. Itoa (fst k) @ ''.'' @ Itoa (snd k)) (map (\<lambda>w. (Unix (fst w), Nanosecond (fst w))) ws)"
    by (simp add: log_item_def item_name_def FormatInt10_def)
  moreover have "inj (\<lambda>k :: int \<times> int. Itoa (fst k) @ ''.'' @ Itoa (snd k))"
  proof (rule injI)
    fix x y :: "int \<times> int"
    assume "Itoa (fst x) @ ''.'' @ Itoa (snd x) = Itoa (fst y) @ ''.'' @ Itoa (snd y)"
    then have "Itoa (fst x) @ CHR ''.'' # Itoa (snd x) = Itoa (fst y) @ CHR ''.'' # Itoa (snd y)"
      by simp
    then have "Itoa (fst x) = Itoa (fst y) \<and> Itoa (snd x) = Itoa (snd y)"
      by (rule append_dot_inj [OF Itoa_no_dot Itoa_no_dot])
    then show "x = y" by (simp add: Itoa_inj prod_eq_iff)
  qed
  then have "inj_on (\<lambda>k :: int \<times> int. Itoa (fst k) @ ''.'' @ Itoa (snd k))
               (set (map (\<lambda>w. (Unix (fst w), Nanosecond (fst w))) ws))"
    by (rule inj_on_subset) simp
  ultimately show ?thesis using d by (simp only: distinct_map)
qed

text \<open>
  Claim C9, amended. From an empty buffer, 25 writes in sequence start exactly one flush,
  at the 25th write (no shorter run starts one); its argument is the writer's domain and
  the 25 items in the order of the writes, each with the single attribute \<open>msg\<close> holding
  the trimmed text and with the name \<open>seconds.nanoseconds\<close> of its clock reading.
  The names are pairwise distinct when the clock readings are. After the 25th write the
  buffer is empty, and the next write leaves a buffer of one item and starts no flush.
\<close>

theorem writer_flushes_at_25:
  assumes "buffer s = []" and "length ws = 25"
  shows "Write_all TrimSpace s ws = (s\<lparr>buffer := []\<rparr>, [(Domain s, map (log_item TrimSpace) ws)])
     \<and> (\<forall>n<25. snd (Write_all TrimSpace s (take n ws)) = [])
     \<and> (distinct (map (\<lambda>w. (Unix (fst w), Nanosecond (fst w))) ws) \<longrightarrow>
          distinct (map Item.Name (map (log_item TrimSpace) ws)))
     \<and> Write TrimSpace t (s\<lparr>buffer := []\<rparr>) bs =
          (s\<lparr>buffer := [log_item TrimSpace (t, bs)]\<rparr>, None, int (length bs), None)"
proof -
  from assms have ne: "ws \<noteq> []" by auto
  have 1: "Write_all TrimSpace s ws = (s\<lparr>buffer := []\<rparr>, [(Domain s, map (log_item TrimSpace) ws)])"
    using Write_all_fill [of s ws TrimSpace] assms ne by simp
  have 2: "\<forall>n<25. snd (Write_all TrimSpace s (take n ws)) = []"
    using Write_all_below [of s _ TrimSpace] assms by simp
  have 3: "distinct (map (\<lambda>w. (Unix (fst w), Nanosecond (fst w))) ws) \<longrightarrow>
          distinct (map Item.Name (map (log_item TrimSpace) ws))"
    using distinct_item_names by blast
  have 4: "Write TrimSpace t (s\<lparr>buffer := []\<rparr>) bs =
          (s\<lparr>buffer := [log_item TrimSpace (t, bs)]\<rparr>, None, int (length bs), None)"
    by (simp add: Write_eq)
  from 1 2 3 4 show ?thesis by (intro conjI)
qed

theorem writer_flushes_at_25_witness:
  "snd (Write_all (\<lambda>x. x)
          \<lparr>sdb = \<lparr>RawResponse = [], RawRequest = [], p = [], accessKey = ''AK'', secretKey = ''SK'',
          region = ''h''\<rparr>,
           Domain = ''logs'', buffer = []\<rparr>
          (map (\<lambda>n. (\<lparr>Year = 2014, Month = 3, Day = 5, Hour = 7, Minute = 8, Second = 9,
                       Nanosecond = int n, Unix = 1394003289\<rparr>, ''line'')) [0..<25]))
   = [(''logs'',
       map (log_item (\<lambda>x. x))
         (map (\<lambda>n. (\<lparr>Year = 2014, Month = 3, Day = 5, Hour = 7, Minute = 8, Second = 9,
                       Nanosecond = int n, Unix = 1394003289\<rparr>, ''line'')) [0..<25]))]"
  using writer_flushes_at_25 [of
        "\<lparr>sdb = \<lparr>RawResponse = [], RawRequest = [], p = [], accessKey = ''AK'', secretKey = ''SK'',
          region = ''h''\<rparr>,
           Domain = ''logs'', buffer = []\<rparr>"
        "map (\<lambda>n. (\<lparr>Year = 2014, Month = 3, Day = 5, Hour = 7, Minute = 8, Second = 9,
                       Nanosecond = int n, Unix = 1394003289\<rparr>, ''line'')) [0..<25]"
        "\<lambda>x. x"]
  by simp

text \<open>
  Two writes at the same clock reading get the same name: with one reading for all 25
  writes, the names in the flushed batch are not distinct.
\<close>

theorem writer_names_not_unique:
  "\<not> distinct (map Item.Name (snd (hd (snd
       (Write_all (\<lambda>x. x)
          \<lparr>sdb = \<lparr>RawResponse = [], RawRequest = [], p = [], accessKey = ''AK'', secretKey = ''SK'',
          region = ''h''\<rparr>,
           Domain = ''logs'', buffer = []\<rparr>
          (replicate 25 (\<lparr>Year = 2014, Month = 3, Day = 5, Hour = 7, Minute = 8, Second = 9,
         Nanosecond = 120, Unix = 1394003289\<rparr>, ''line'')))))))"
proof -
  have "Write_all (\<lambda>x. x)
          \<lparr>sdb = \<lparr>RawResponse = [], RawRequest = [], p = [], accessKey = ''AK'', secretKey = ''SK'',
          region = ''h''\<rparr>,
           Domain = ''logs'', buffer = []\<rparr>
          (replicate 25 (\<lparr>Year = 2014, Month = 3, Day = 5, Hour = 7, Minute = 8, Second = 9,
         Nanosecond = 120, Unix = 1394003289\<rparr>, ''line''))
        = (\<lparr>sdb = \<lparr>RawResponse = [], RawRequest = [], p = [], accessKey = ''AK'', secretKey = ''SK'',
          region = ''h''\<rparr>,
           Domain = ''logs'', buffer = []\<rparr>,
           [(''logs'', map (log_item (\<lambda>x. x)) (replicate 25 (\<lparr>Year = 2014, Month = 3, Day = 5, Hour = 7, Minute = 8, Second = 9,
         Nanosecond = 120, Unix = 1394003289\<rparr>, ''line'')))])"
    using Write_all_fill [of
        "\<lparr>sdb = \<lparr>RawResponse = [], RawRequest = [], p = [], accessKey = ''AK'', secretKey = ''SK'',
          region = ''h''\<rparr>,
           Domain = ''logs'', buffer = []\<rparr>"
        "replicate 25 (\<lparr>Year = 2014, Month = 3, Day = 5, Hour = 7, Minute = 8, Second = 9,
         Nanosecond = 120, Unix = 1394003289\<rparr>, ''line'')" "\<lambda>x. x"]
    by simp
  then show ?thesis by (simp add: not_distinct_replicate)
qed

section \<open>The canonical query string and the string to sign\<close>

subsection \<open>Encode writes the pairs joined by ampersands\<close>

lemma Encode_values_foldl:
  "Encode_values ke vs buf = foldl sep_append buf (map (\<lambda>x. ke @ ''='' @ QueryEscape x) vs)"
  by (induction vs arbitrary: buf) (simp_all add: sep_append_def)

lemma Encode_keys_foldl:
  "Encode_keys v ks buf =
     foldl sep_append buf
       (concat (map (\<lambda>k. map (\<lambda>x. QueryEscape k @ ''='' @ QueryEscape x) (index_Values v k)) ks))"
  by (induction ks arbitrary: buf) (simp_all add: Encode_values_foldl)

lemma join_Cons: "join (x # xs) sep = (if xs = [] then x else x @ sep @ join xs sep)"
  by (cases xs) simp_all

lemma foldl_sep_append:
  "[] \<notin> set xs \<Longrightarrow> buf \<noteq> [] \<Longrightarrow>
     foldl sep_append buf xs = (if xs = [] then buf else buf @ ''&'' @ join xs ''&'')"
proof (induction xs arbitrary: buf)
  case Nil
  then show ?case by simp
next
  case (Cons x xs)
  then have "sep_append buf x \<noteq> []" by (simp add: sep_append_def)
  with Cons show ?case by (simp add: join_Cons) (simp add: sep_append_def)
qed

lemma foldl_sep_append_Nil: "[] \<notin> set xs \<Longrightarrow> foldl sep_append [] xs = join xs ''&''"
proof (cases xs)
  case Nil
  then show ?thesis by simp
next
  case (Cons x ys)
  assume "[] \<notin> set xs"
  with Cons have "x \<noteq> []" "[] \<notin> set ys" by auto
  then show ?thesis using Cons foldl_sep_append [of ys x]
    by (simp add: sep_append_def join_Cons)
qed

lemma form_pairs_nonempty: "[] \<notin> set (form_pairs v)"
  by (auto simp: form_pairs_def)

lemma Encode_join: "Encode v = join (form_pairs v) ''&''"
proof (cases "v = []")
  case True
  then show ?thesis by (simp add: Encode_def form_pairs_def)
next
  case False
  then show ?thesis
    using foldl_sep_append_Nil [OF form_pairs_nonempty, of v]
    by (simp add: Encode_def Encode_keys_foldl form_pairs_def)
qed

lemma canonical_query_Encode: "strings_Replace (Encode v) (CHR ''+'') ''%20'' = canonical_query v"
  by (simp add: canonical_query_def Encode_join)

subsection \<open>Replacing the plus sign gives the percent-encoding\<close>

lemma strings_Replace_append:
  "strings_Replace (a @ b) c new = strings_Replace a c new @ strings_Replace b c new"
  by (simp add: strings_Replace_def)

lemma strings_Replace_Cons:
  "strings_Replace (a # s) c new = (if a = c then new else [a]) @ strings_Replace s c new"
  by (simp add: strings_Replace_def)

lemma strings_Replace_join:
  "strings_Replace (join xs sep) c new =
     join (map (\<lambda>x. strings_Replace x c new) xs) (strings_Replace sep c new)"
  by (induction xs sep rule: join.induct) (simp_all add: strings_Replace_append, simp add: strings_Replace_def)

lemma hex_table:
  "list_all (\<lambda>i. ishex (upperhex ! i) \<and> unhex (upperhex ! i) = i
                 \<and> upperhex ! i \<noteq> CHR ''+'' \<and> upperhex ! i \<noteq> CHR ''&''
                 \<and> upperhex ! i \<noteq> CHR ''='' \<and> upperhex ! i \<noteq> CHR '';''
                 \<and> upperhex ! i \<noteq> CHR ''%'' \<and> upperhex ! i \<noteq> CHR 0x0A) [0..<16]"
  by code_simp

lemma hex_digit:
  assumes "i < 16"
  shows "ishex (upperhex ! i)" "unhex (upperhex ! i) = i"
    "upperhex ! i \<noteq> CHR ''+''" "upperhex ! i \<noteq> CHR ''&''" "upperhex ! i \<noteq> CHR ''=''"
    "upperhex ! i \<noteq> CHR '';''" "upperhex ! i \<noteq> CHR ''%''" "upperhex ! i \<noteq> CHR 0x0A"
  using hex_table assms by (simp_all add: list_all_iff)

lemma of_char_less_256: "(of_char c :: nat) < 256"
proof -
  have "(of_char c :: nat) mod 256 = of_char c" by simp
  then show ?thesis by (metis mod_less_divisor zero_less_numeral)
qed

lemma hi_lo: "(of_char c :: nat) div 16 < 16" "(of_char c :: nat) mod 16 < 16"
proof -
  have "(of_char c :: nat) < 16 * 16" using of_char_less_256 [of c] by simp
  then show "(of_char c :: nat) div 16 < 16" by (rule less_mult_imp_div_less)
  show "(of_char c :: nat) mod 16 < 16" by simp
qed

lemma reserved_escaped:
  "shouldEscape (CHR ''+'')" "shouldEscape (CHR ''&'')" "shouldEscape (CHR ''='')"
  "shouldEscape (CHR '';'')" "shouldEscape (CHR ''%'')" "shouldEscape (CHR '' '')"
  "shouldEscape (CHR 0x0A)"
  by (simp_all add: shouldEscape_def)

lemma pct_byte_space: "pct_byte (CHR '' '') = ''%20''"
  by code_simp

lemma Replace_escape_byte:
  "strings_Replace (escape_byte c) (CHR ''+'') ''%20'' = (if shouldEscape c then pct_byte c else [c])"
proof (cases "c = CHR '' ''")
  case True
  then show ?thesis by (simp add: escape_byte_def strings_Replace_def reserved_escaped pct_byte_space)
next
  case sp: False
  show ?thesis
  proof (cases "shouldEscape c")
    case True
    with sp show ?thesis
      by (simp add: escape_byte_def strings_Replace_def pct_byte_def hex_digit hi_lo)
  next
    case False
    then have "c \<noteq> CHR ''+''" using reserved_escaped by auto
    with sp False show ?thesis by (simp add: escape_byte_def strings_Replace_def)
  qed
qed

lemma Replace_QueryEscape: "strings_Replace (QueryEscape s) (CHR ''+'') ''%20'' = pct_encode s"
proof (induction s)
  case Nil
  then show ?case by (simp add: QueryEscape_def pct_encode_def strings_Replace_def)
next
  case (Cons c s)
  have "QueryEscape (c # s) = escape_byte c @ QueryEscape s" by (simp add: QueryEscape_def)
  moreover have "pct_encode (c # s) = (if shouldEscape c then pct_byte c else [c]) @ pct_encode s"
    by (simp add: pct_encode_def)
  ultimately show ?case
    by (simp only: strings_Replace_append Replace_escape_byte Cons.IH)
qed

lemma Replace_amp: "strings_Replace ''&'' (CHR ''+'') ''%20'' = ''&''"
  by (simp add: strings_Replace_def)

lemma Replace_eq: "strings_Replace ''='' (CHR ''+'') ''%20'' = ''=''"
  by (simp add: strings_Replace_def)

lemma canonical_query_pct: "canonical_query v = join (map enc_pair (sorted_pairs v)) ''&''"
proof -
  have "map (\<lambda>x. strings_Replace x (CHR ''+'') ''%20'') (form_pairs v) = map enc_pair (sorted_pairs v)"
    by (simp add: form_pairs_def sorted_pairs_def enc_pair_def map_concat comp_def
          strings_Replace_append strings_Replace_Cons Replace_QueryEscape)
  then show ?thesis
    by (simp add: canonical_query_def strings_Replace_join Replace_amp)
qed

lemma pct_encode_Cons:
  "pct_encode (c # s) = (if shouldEscape c then pct_byte c else [c]) @ pct_encode s"
  by (simp add: pct_encode_def)

lemma pct_encode_Nil: "pct_encode [] = []"
  by (simp add: pct_encode_def)

lemma separator_escaped: "separator d \<Longrightarrow> shouldEscape d"
  using reserved_escaped by (auto simp: separator_def)

lemma separator_not_hex: "i < 16 \<Longrightarrow> separator d \<Longrightarrow> d \<noteq> upperhex ! i"
  using hex_digit(3-6,8) [of i] by (auto simp: separator_def)

lemma separator_not_percent: "separator d \<Longrightarrow> d \<noteq> CHR ''%''"
  by (auto simp: separator_def)

lemma pct_unit_chars:
  "separator d \<Longrightarrow> d \<notin> set (if shouldEscape x then pct_byte x else [x])"
  using separator_escaped [of d] separator_not_hex [of "of_char x div 16" d]
    separator_not_hex [of "of_char x mod 16" d] separator_not_percent [of d]
  by (auto simp: pct_byte_def hi_lo)

lemma pct_encode_separator: "separator d \<Longrightarrow> d \<notin> set (pct_encode s)"
proof (induction s)
  case Nil
  show ?case by (simp add: pct_encode_Nil)
next
  case (Cons x s)
  from Cons.prems have "d \<notin> set (if shouldEscape x then pct_byte x else [x])"
    by (rule pct_unit_chars)
  moreover have "d \<notin> set (pct_encode s)" using Cons by simp
  ultimately show ?case unfolding pct_encode_Cons set_append by blast
qed

lemma pct_encode_chars:
  "CHR ''&'' \<notin> set (pct_encode s)" "CHR ''='' \<notin> set (pct_encode s)"
  "CHR '';'' \<notin> set (pct_encode s)" "CHR ''+'' \<notin> set (pct_encode s)"
  "CHR 0x0A \<notin> set (pct_encode s)"
  by (simp_all add: pct_encode_separator separator_def)

lemma unhex_pct: "char_of (unhex (upperhex ! (of_char c div 16)) * 16 + unhex (upperhex ! (of_char c mod 16))) = c"
proof -
  have "unhex (upperhex ! (of_char c div 16)) * 16 + unhex (upperhex ! (of_char c mod 16))
        = (of_char c :: nat)"
    by (simp add: hex_digit hi_lo)
  then show ?thesis by simp
qed

lemma QueryUnescape_pct_encode: "QueryUnescape (pct_encode s) = Some s"
proof (induction s)
  case Nil
  then show ?case by (simp add: pct_encode_Nil)
next
  case (Cons c s)
  show ?case
  proof (cases "shouldEscape c")
    case True
    then show ?thesis
      using Cons by (simp add: pct_encode_Cons pct_byte_def hex_digit hi_lo unhex_pct)
  next
    case False
    then have "c \<noteq> CHR ''%''" "c \<noteq> CHR ''+''" using reserved_escaped by auto
    with False Cons show ?thesis by (simp add: pct_encode_Cons)
  qed
qed

lemma takeWhile_until: "c \<notin> set a \<Longrightarrow> takeWhile (\<lambda>x. x \<noteq> c) (a @ c # b) = a"
  by (induction a) auto

lemma dropWhile_until: "c \<notin> set a \<Longrightarrow> dropWhile (\<lambda>x. x \<noteq> c) (a @ c # b) = c # b"
  by (induction a) auto

lemma takeWhile_all: "c \<notin> set a \<Longrightarrow> takeWhile (\<lambda>x. x \<noteq> c) a = a"
  by (induction a) auto

lemma dropWhile_all: "c \<notin> set a \<Longrightarrow> dropWhile (\<lambda>x. x \<noteq> c) a = []"
  by (induction a) auto

lemma Cut_at:
  "c \<notin> set a \<Longrightarrow> Cut_before (a @ c # b) c = a"
  "c \<notin> set a \<Longrightarrow> Cut_after (a @ c # b) c = b"
  by (simp_all add: Cut_before_def Cut_after_def takeWhile_until dropWhile_until)

lemma Cut_none:
  "c \<notin> set a \<Longrightarrow> Cut_before a c = a"
  "c \<notin> set a \<Longrightarrow> Cut_after a c = []"
  by (simp_all add: Cut_before_def Cut_after_def takeWhile_all dropWhile_all)

lemma enc_pair_facts:
  "enc_pair kx \<noteq> []" "CHR ''&'' \<notin> set (enc_pair kx)" "CHR '';'' \<notin> set (enc_pair kx)"
  "Cut_before (enc_pair kx) (CHR ''='') = pct_encode (fst kx)"
  "Cut_after (enc_pair kx) (CHR ''='') = pct_encode (snd kx)"
  by (simp_all add: enc_pair_def pct_encode_chars Cut_at)

lemma parseQuery_Nil: "parseQuery m err [] = (m, err)"
  by (simp add: parseQuery.simps)

lemma parseQuery_segment:
  assumes "Cut_before query (CHR ''&'') = enc_pair kx" and "query \<noteq> []"
  shows "parseQuery m err query = parseQuery (Add m (fst kx) (snd kx)) err (Cut_after query (CHR ''&''))"
  using assms
  by (subst parseQuery.simps) (simp add: Let_def enc_pair_facts QueryUnescape_pct_encode)

lemma parseQuery_join:
  "parseQuery m err (join (map enc_pair pairs) ''&'') =
     (foldl (\<lambda>m kx. Add m (fst kx) (snd kx)) m pairs, err)"
proof (induction pairs arbitrary: m)
  case Nil
  then show ?case by (simp add: parseQuery_Nil)
next
  case (Cons kx pairs)
  show ?case
  proof (cases pairs)
    case Nil
    have "parseQuery m err (enc_pair kx) = parseQuery (Add m (fst kx) (snd kx)) err []"
      using parseQuery_segment [of "enc_pair kx" kx m err]
      by (simp add: Cut_none enc_pair_facts)
    with Nil show ?thesis by (simp add: parseQuery_Nil)
  next
    case (Cons ky rest)
    let ?q = "enc_pair kx @ CHR ''&'' # join (map enc_pair pairs) ''&''"
    have "parseQuery m err ?q =
            parseQuery (Add m (fst kx) (snd kx)) err (join (map enc_pair pairs) ''&'')"
      using parseQuery_segment [of ?q kx m err]
      by (simp add: Cut_at enc_pair_facts)
    with Cons Cons.IH [of "Add m (fst kx) (snd kx)"] show ?thesis by simp
  qed
qed

lemma set_join: "set (join xs sep) \<subseteq> \<Union> (set ` set xs) \<union> set sep"
  by (induction xs sep rule: join.induct) auto

lemma canonical_query_no_newline: "CHR 0x0A \<notin> set (canonical_query v)"
proof -
  have "CHR 0x0A \<notin> set (enc_pair kx)" for kx
    by (simp add: enc_pair_def pct_encode_chars)
  then show ?thesis
    using set_join [of "map enc_pair (sorted_pairs v)" "''&''"]
    by (auto simp: canonical_query_pct)
qed

text \<open>
  Claim C1. The string that \<open>post\<close> signs is the four components \<open>POST\<close>, the
  region host, \<open>/\<close> and the canonical query string, joined by newlines, with nothing
  after the query string; the canonical query string is the form encoding of the
  parameters, sorted by key, with every \<open>+\<close> replaced by \<open>%20\<close>, and holds no
  newline. \<open>post\<close> adds the parameter \<open>Signature\<close> with the base64 encoding of the
  HMAC-SHA256 of that string under the secret key, and the request body is the canonical
  query string of the parameters with the signature.
\<close>

theorem string_to_sign_and_signature:
  "unsignedSignature db = join [''POST'', region db, ''/'', canonical_query (p db)] [CHR 0x0A]
   \<and> CHR 0x0A \<notin> set (canonical_query (p db))
   \<and> p (post_sign db) =
       Add (p db) ''Signature'' (EncodeToString (hmac_sha256 (secretKey db) (unsignedSignature db)))
   \<and> RawRequest (post_sign db) = canonical_query (p (post_sign db))"
  by (simp add: unsignedSignature_def canonical_query_Encode post_sign_def Let_def sign_def
        canonical_query_no_newline)

section \<open>Decoding the canonical query string\<close>

lemma map_of_Add:
  "map_of (Add m k x) = (map_of m)(k \<mapsto> index_Values m k @ [x])"
  by (induction m k x rule: Add.induct) (auto simp: index_Values_def)

lemma index_Values_Add:
  "index_Values (Add m k x) k' = (if k' = k then index_Values m k @ [x] else index_Values m k')"
  by (simp add: index_Values_def map_of_Add)

lemma Add_all_Nil: "Add_all m [] = m"
  by (simp add: Add_all_def)

lemma Add_all_Cons: "Add_all m (kx # pairs) = Add_all (Add m (fst kx) (snd kx)) pairs"
  by (simp add: Add_all_def)

lemma index_Values_Add_all:
  "index_Values (Add_all m pairs) k = index_Values m k @ map snd (filter (\<lambda>kx. fst kx = k) pairs)"
  by (induction pairs arbitrary: m) (simp_all add: Add_all_Nil Add_all_Cons index_Values_Add)

lemma keys_Add_all: "fst ` set (Add_all m pairs) = fst ` set m \<union> fst ` set pairs"
  by (induction pairs arbitrary: m) (auto simp: Add_all_Nil Add_all_Cons keys_Add)

lemma map_of_index_Values:
  "map_of m k = (if k \<in> fst ` set m then Some (index_Values m k) else None)"
  by (auto simp: index_Values_def map_of_eq_None_iff split: option.splits)

lemma filter_key_pairs:
  "distinct ks \<Longrightarrow>
     filter (\<lambda>kx. fst kx = k) (concat (map (\<lambda>k'. map (Pair k') (f k')) ks)) =
       (if k \<in> set ks then map (Pair k) (f k) else [])"
proof (induction ks)
  case Nil
  then show ?case by simp
next
  case (Cons a ks)
  have "filter (\<lambda>kx. fst kx = k) (map (Pair a) (f a)) = (if a = k then map (Pair a) (f a) else [])"
    by (induction "f a") (auto simp: filter_map comp_def)
  with Cons show ?case by auto
qed

lemma sorted_pairs_values:
  "distinct (map fst v) \<Longrightarrow>
     map snd (filter (\<lambda>kx. fst kx = k) (sorted_pairs v)) = index_Values v k"
proof -
  assume d: "distinct (map fst v)"
  then have "distinct (sort (map fst v))" by simp
  then have "filter (\<lambda>kx. fst kx = k) (sorted_pairs v) =
      (if k \<in> set (sort (map fst v)) then map (Pair k) (index_Values v k) else [])"
    unfolding sorted_pairs_def by (rule filter_key_pairs)
  moreover have "k \<notin> fst ` set v \<Longrightarrow> index_Values v k = []"
    by (simp add: index_Values_def map_of_eq_None_iff [THEN iffD2])
  ultimately show ?thesis by (auto simp: comp_def)
qed

lemma keys_concat_pairs:
  "fst ` set (concat (map (\<lambda>k. map (Pair k) (f k)) ks)) = {k \<in> set ks. f k \<noteq> []}"
proof (induction ks)
  case Nil
  then show ?case by simp
next
  case (Cons a ks)
  have "fst ` Pair a ` set (f a) = (if f a = [] then {} else {a})"
    by (cases "f a") (auto simp: image_iff)
  with Cons show ?case by (auto simp: image_Un)
qed

lemma sorted_pairs_keys:
  "[] \<notin> set (map snd v) \<Longrightarrow> distinct (map fst v) \<Longrightarrow> fst ` set (sorted_pairs v) = fst ` set v"
proof -
  assume ne: "[] \<notin> set (map snd v)" and d: "distinct (map fst v)"
  have "\<And>k. k \<in> fst ` set v \<Longrightarrow> index_Values v k \<noteq> []"
  proof -
    fix k assume "k \<in> fst ` set v"
    then obtain vs where kv: "(k, vs) \<in> set v" by auto
    with d have "map_of v k = Some vs" by simp
    moreover from kv ne have "vs \<noteq> []" by force
    ultimately show "index_Values v k \<noteq> []" by (simp add: index_Values_def)
  qed
  then show ?thesis
    unfolding sorted_pairs_def keys_concat_pairs by auto
qed

lemma ParseQuery_canonical:
  "ParseQuery (canonical_query v) = (Add_all [] (sorted_pairs v), None)"
  by (simp add: ParseQuery_def canonical_query_pct parseQuery_join Add_all_def)

lemma map_of_roundtrip:
  assumes "wf_Values v"
  shows "map_of (Add_all [] (sorted_pairs v)) = map_of v"
proof
  fix k
  from assms have d: "distinct (map fst v)" and ne: "[] \<notin> set (map snd v)"
    by (simp_all add: wf_Values_def)
  have keys: "fst ` set (Add_all [] (sorted_pairs v)) = fst ` set v"
    using sorted_pairs_keys [OF ne d] by (simp add: keys_Add_all)
  have "index_Values [] k = []" by (simp add: index_Values_def)
  then have vals: "index_Values (Add_all [] (sorted_pairs v)) k = index_Values v k"
    by (simp only: index_Values_Add_all sorted_pairs_values [OF d] append_Nil)
  show "map_of (Add_all [] (sorted_pairs v)) k = map_of v k"
    by (simp only: map_of_index_Values [of _ k] keys vals)
qed

lemma wf_Values_Nil: "wf_Values []"
  by (simp add: wf_Values_def)

lemma wf_Values_Add: "wf_Values v \<Longrightarrow> wf_Values (Add v k x)"
proof (induction v k x rule: Add.induct)
  case (1 key val)
  then show ?case by (simp add: wf_Values_def)
next
  case (2 k vs v key val)
  show ?case
  proof (cases "k = key")
    case True
    with 2 show ?thesis by (auto simp: wf_Values_def)
  next
    case False
    from 2 have "wf_Values v" by (simp add: wf_Values_def)
    with 2 False have "wf_Values (Add v key val)" by simp
    with 2 False show ?thesis
      using keys_Add [of v key val] by (auto simp: wf_Values_def)
  qed
qed

lemma wf_Values_resetParameters: "wf_Values (p (resetParameters now db))"
  by (simp add: p_resetParameters wf_Values_def)

text \<open>
  Claim C3. For a parameter mapping as the client holds it (every key once, every key
  with at least one value, which \<open>Add\<close> keeps), decoding the canonical query string
  with \<open>url.ParseQuery\<close> gives no error and a mapping with the same values for every
  key, whatever bytes the keys and values contain.
\<close>

theorem canonical_query_roundtrip:
  assumes "wf_Values v"
  shows "snd (ParseQuery (strings_Replace (Encode v) (CHR ''+'') ''%20'')) = None
     \<and> map_of (fst (ParseQuery (strings_Replace (Encode v) (CHR ''+'') ''%20''))) = map_of v"
  using map_of_roundtrip [OF assms]
  by (simp add: canonical_query_Encode ParseQuery_canonical)

theorem canonical_query_roundtrip_witness:
  "map_of (fst (ParseQuery (strings_Replace
       (Encode [(''b k'', [''v+1&x=y~'', ''zz/'']), (''a'', [''2 3''])]) (CHR ''+'') ''%20'')))
   = map_of [(''b k'', [''v+1&x=y~'', ''zz/'']), (''a'', [''2 3''])]"
  using canonical_query_roundtrip [of "[(''b k'', [''v+1&x=y~'', ''zz/'']), (''a'', [''2 3''])]"]
  by (simp add: wf_Values_def)

section \<open>Signatures of different parameter mappings\<close>

subsection \<open>Base64 is injective\<close>



















declare EncodeToString.simps [simp del]



subsection \<open>Different parameters, different signed strings\<close>





end
